theory Spec2Isabelle
  imports Complex_Main "HOL-Library.Multiset"
begin

section \<open>Constants of \<open>flask_app/app.py\<close>\<close>

definition MAX_PAGE_SIZE :: int where
  "MAX_PAGE_SIZE = 20"

definition MIN_PAGE_SIZE :: int where
  "MIN_PAGE_SIZE = 5"

definition CACHE_TTL :: real where
  "CACHE_TTL = 600"

definition PRELOAD_BUFFER :: nat where
  "PRELOAD_BUFFER = 100"

section \<open>Documents of the store\<close>

text \<open>
  Scores and instants are Python floats and datetimes in the source; here they are exact
  reals (an instant is a number of seconds). Identifiers are the canonical strings that
  \<open>str(ObjectId(...))\<close> yields. A field that a document may lack is an option.
\<close>

datatype py_error = TypeError | ValueError | AttributeError | OverflowError

datatype ts_value = TsDatetime real | TsString string

datatype parsed_dt = NaiveDT real | AwareDT real

record feed =
  feed_id :: string
  feed_userId :: string
  feed_status :: string
  hashtags :: "string list"
  createdAt :: "ts_value option"
  decayedPopularityScore :: "real option"
  feed_text :: "string option"
  feed_title :: "string option"
  likeCount :: "int option"
  commentCount :: "int option"

record candidate =
  item_id :: string
  cf_score :: "real option"
  content_score :: "real option"
  social_score :: "real option"
  popularity_score :: "real option"
  category :: "string option"
  feed_data :: "feed option"

section \<open>The candidate merge engine\<close>

text \<open>\<open>d.get(key, 0)\<close> on a score field.\<close>

definition get_or_zero :: "real option \<Rightarrow> real" where
  "get_or_zero v = (case v of None \<Rightarrow> 0 | Some x \<Rightarrow> x)"

text \<open>
  One turn of the loop over the three score keys of \<open>merge_candidates\<close>:
  \<open>if key in c: merged[iid][key] = max(merged[iid].get(key, 0), c[key])\<close>.
\<close>

definition merge_key :: "real option \<Rightarrow> real option \<Rightarrow> real option" where
  "merge_key old new =
     (case new of None \<Rightarrow> old | Some v \<Rightarrow> Some (max (get_or_zero old) v))"

text \<open>The \<open>else\<close> branch: the record already stored under the identifier is updated.\<close>

definition merge_into :: "candidate \<Rightarrow> candidate \<Rightarrow> candidate" where
  "merge_into m c =
     m\<lparr> cf_score := merge_key (cf_score m) (cf_score c),
        content_score := merge_key (content_score m) (content_score c),
        social_score := merge_key (social_score m) (social_score c),
        feed_data := (case feed_data c of None \<Rightarrow> feed_data m | Some d \<Rightarrow> Some d) \<rparr>"

text \<open>
  The dict \<open>merged\<close> keeps insertion order and each value carries its own key, so it is
  the list of its values. \<open>merge_step\<close> is the body of the inner loop.
\<close>

fun merge_step :: "candidate list \<Rightarrow> candidate \<Rightarrow> candidate list" where
  "merge_step [] c = [c]"
| "merge_step (m # ms) c =
     (if item_id m = item_id c then merge_into m c # ms else m # merge_step ms c)"

definition merge_candidates :: "candidate list list \<Rightarrow> candidate list" where
  "merge_candidates candidate_lists =
     foldl (\<lambda>merged lst. foldl merge_step merged lst) [] candidate_lists"

subsection \<open>What the contract of the merge says\<close>

text \<open>
  The values of one field that the occurrences of an identifier supply, in the order of
  the occurrences; their maximum; and the value supplied last.
\<close>

definition supplied :: "(candidate \<Rightarrow> 'a option) \<Rightarrow> string \<Rightarrow> candidate list \<Rightarrow> 'a list" where
  "supplied fld iid cs = List.map_filter fld (filter (\<lambda>c. item_id c = iid) cs)"

definition max_supplied :: "(candidate \<Rightarrow> real option) \<Rightarrow> string \<Rightarrow> candidate list \<Rightarrow> real option" where
  "max_supplied fld iid cs =
     (case supplied fld iid cs of [] \<Rightarrow> None | v # vs \<Rightarrow> Some (Max (set (v # vs))))"

definition last_supplied :: "(candidate \<Rightarrow> 'a option) \<Rightarrow> string \<Rightarrow> candidate list \<Rightarrow> 'a option" where
  "last_supplied fld iid cs =
     (case supplied fld iid cs of [] \<Rightarrow> None | v # vs \<Rightarrow> Some (last (v # vs)))"

definition nonneg_field :: "real option \<Rightarrow> bool" where
  "nonneg_field v = (0 \<le> get_or_zero v)"

definition nonneg_scores :: "candidate \<Rightarrow> bool" where
  "nonneg_scores c =
     (nonneg_field (cf_score c) \<and> nonneg_field (content_score c) \<and> nonneg_field (social_score c))"

definition lookup_id :: "candidate list \<Rightarrow> string \<Rightarrow> candidate option" where
  "lookup_id ms iid = find (\<lambda>m. item_id m = iid) ms"

definition scores_ok :: "candidate list \<Rightarrow> candidate \<Rightarrow> bool" where
  "scores_ok cs m =
     (cf_score m = max_supplied cf_score (item_id m) cs \<and>
      content_score m = max_supplied content_score (item_id m) cs \<and>
      social_score m = max_supplied social_score (item_id m) cs)"

definition merged_ok :: "candidate list \<Rightarrow> candidate \<Rightarrow> bool" where
  "merged_ok cs m =
     (scores_ok cs m \<and> feed_data m = last_supplied feed_data (item_id m) cs)"

fun join_max :: "real option \<Rightarrow> real option \<Rightarrow> real option" where
  "join_max None b = b"
| "join_max (Some a) None = Some a"
| "join_max (Some a) (Some b) = Some (max a b)"

section \<open>Recency\<close>

text \<open>\<open>ts.replace("Z", "+00:00")\<close>: every \<open>Z\<close> of the string is replaced.\<close>

definition replace_Z :: "string \<Rightarrow> string" where
  "replace_Z s = concat (map (\<lambda>c. if c = CHR ''Z'' then ''+00:00'' else [c]) s)"

text \<open>
  \<open>compute_recency_score(item_doc)\<close>. The empty document \<open>{}\<close> is \<open>None\<close>.
  \<open>datetime.fromisoformat\<close> is a parameter (\<open>None\<close> when it raises); \<open>utcnow0\<close> is the
  clock reading of the \<open>except\<close> branch and \<open>utcnow1\<close> the one the age is taken from.
  A timestamp that is absent, \<open>None\<close> or the empty string is falsy. Subtracting an
  offset-aware datetime from the naive \<open>utcnow()\<close> raises \<open>TypeError\<close>.
\<close>

definition compute_recency_score ::
  "(string \<Rightarrow> parsed_dt option) \<Rightarrow> real \<Rightarrow> real \<Rightarrow> feed option \<Rightarrow> py_error + real" where
  "compute_recency_score fromisoformat utcnow0 utcnow1 item_doc =
     (case (case item_doc of None \<Rightarrow> None | Some d \<Rightarrow> createdAt d) of
        None \<Rightarrow> Inr 0.2
      | Some ts \<Rightarrow>
          if ts = TsString [] then Inr 0.2
          else (case (case ts of
                        TsDatetime t \<Rightarrow> NaiveDT t
                      | TsString s \<Rightarrow>
                          (case fromisoformat (replace_Z s) of
                             None \<Rightarrow> NaiveDT utcnow0
                           | Some p \<Rightarrow> p)) of
                  AwareDT t \<Rightarrow> Inl TypeError
                | NaiveDT t \<Rightarrow>
                    (let age_hours = (utcnow1 - t) / 3600
                     in Inr (if age_hours < 1 then 1.0
                             else if age_hours < 24 then 0.8
                             else if age_hours < 72 then 0.5
                             else 0.2))))"

section \<open>The adapter of the external recommender\<close>

text \<open>
  A value decoded by \<open>resp.json()\<close>: an integer literal becomes a Python \<open>int\<close> of any
  size, a literal with a fraction or an exponent a \<open>float\<close>.
\<close>

datatype json =
  JNull | JBool bool | JInt int | JFloat real | JStr string | JArr "json list"
  | JObj "(string \<times> json) list"

text \<open>Python truthiness of a decoded JSON value.\<close>

fun truthy :: "json \<Rightarrow> bool" where
  "truthy JNull = False"
| "truthy (JBool b) = b"
| "truthy (JInt n) = (n \<noteq> 0)"
| "truthy (JFloat x) = (x \<noteq> 0)"
| "truthy (JStr s) = (s \<noteq> [])"
| "truthy (JArr xs) = (xs \<noteq> [])"
| "truthy (JObj kvs) = (kvs \<noteq> [])"

definition py_or :: "json \<Rightarrow> json \<Rightarrow> json" where
  "py_or a b = (if truthy a then a else b)"

text \<open>\<open>it.get(key)\<close>: \<open>None\<close> when the key is missing.\<close>

definition dict_get :: "(string \<times> json) list \<Rightarrow> string \<Rightarrow> json" where
  "dict_get kvs k = (case map_of kvs k of None \<Rightarrow> JNull | Some v \<Rightarrow> v)"

text \<open>
  \<open>float(score)\<close>. An \<open>int\<close> that rounds beyond the largest double raises
  \<open>OverflowError\<close>: the integers from \<open>2^1024 - 2^970\<close> on, in absolute value. The
  conversion of a string is a parameter (\<open>None\<close>: ValueError).
\<close>

definition int_too_large_for_float :: "int \<Rightarrow> bool" where
  "int_too_large_for_float n = (2 ^ 1024 - 2 ^ 970 \<le> \<bar>n\<bar>)"

fun py_float :: "(string \<Rightarrow> real option) \<Rightarrow> json \<Rightarrow> py_error + real" where
  "py_float strf (JInt n) = (if int_too_large_for_float n then Inl OverflowError else Inr (of_int n))"
| "py_float strf (JFloat x) = Inr x"
| "py_float strf (JBool b) = Inr (if b then 1 else 0)"
| "py_float strf (JStr s) = (case strf s of None \<Rightarrow> Inl ValueError | Some x \<Rightarrow> Inr x)"
| "py_float strf JNull = Inl TypeError"
| "py_float strf (JArr xs) = Inl TypeError"
| "py_float strf (JObj kvs) = Inl TypeError"

record gorse_item =
  g_item_id :: json
  g_cf_score :: real

text \<open>The identifier and the score that the loop body reads from one entry.\<close>

definition entry_id :: "json \<Rightarrow> json" where
  "entry_id it =
     (case it of
        JObj kvs \<Rightarrow>
          py_or (py_or (py_or (dict_get kvs ''Id'') (dict_get kvs ''ItemId''))
                       (dict_get kvs ''item_id''))
                (dict_get kvs ''id'')
      | _ \<Rightarrow> it)"

definition entry_score :: "json \<Rightarrow> json" where
  "entry_score it =
     (case it of
        JObj kvs \<Rightarrow> py_or (py_or (dict_get kvs ''Score'') (dict_get kvs ''score'')) (JInt 0)
      | _ \<Rightarrow> JInt 0)"

definition normalize_entry :: "(string \<Rightarrow> real option) \<Rightarrow> json \<Rightarrow> py_error + gorse_item" where
  "normalize_entry strf it =
     (case py_float strf (entry_score it) of
        Inl err \<Rightarrow> Inl err
      | Inr x \<Rightarrow> Inr \<lparr>g_item_id = entry_id it, g_cf_score = x\<rparr>)"

text \<open>A loop that appends one result per element and stops at the first exception.\<close>

fun map_result :: "('a \<Rightarrow> 'e + 'b) \<Rightarrow> 'a list \<Rightarrow> 'e + 'b list" where
  "map_result f [] = Inr []"
| "map_result f (x # xs) =
     (case f x of
        Inl err \<Rightarrow> Inl err
      | Inr y \<Rightarrow> (case map_result f xs of Inl err \<Rightarrow> Inl err | Inr ys \<Rightarrow> Inr (y # ys)))"

text \<open>\<open>parse_gorse_items(resp)\<close>; the body is \<open>None\<close> when \<open>resp.json()\<close> raises.\<close>

definition parse_gorse_items ::
  "(string \<Rightarrow> real option) \<Rightarrow> json option \<Rightarrow> py_error + gorse_item list" where
  "parse_gorse_items strf body =
     (case body of
        None \<Rightarrow> Inr []
      | Some (JArr data) \<Rightarrow> map_result (normalize_entry strf) data
      | Some _ \<Rightarrow> Inr [])"

definition no_id_key :: "(string \<times> json) list \<Rightarrow> bool" where
  "no_id_key kvs =
     (map_of kvs ''Id'' = None \<and> map_of kvs ''ItemId'' = None \<and>
      map_of kvs ''item_id'' = None \<and> map_of kvs ''id'' = None)"

definition no_score_key :: "(string \<times> json) list \<Rightarrow> bool" where
  "no_score_key kvs = (map_of kvs ''Score'' = None \<and> map_of kvs ''score'' = None)"

subsection \<open>What the normalisation is said to yield\<close>

text \<open>
  Stated apart from the code, to be compared with it: the first truthy value of a list
  of values (the last value when none is truthy); the identifier of an entry, looked up
  under \<open>Id\<close>, \<open>ItemId\<close>, \<open>item_id\<close>, \<open>id\<close> in this order, a missing key counting as
  \<open>None\<close>; the raw score, looked up under \<open>Score\<close>, \<open>score\<close>, with the default 0; an
  entry whose raw score \<open>float\<close> accepts; and the record of such an entry.
\<close>

definition first_truthy :: "json list \<Rightarrow> json" where
  "first_truthy vs = (case filter truthy vs of [] \<Rightarrow> last vs | v # rest \<Rightarrow> v)"

definition value_under :: "(string \<times> json) list \<Rightarrow> string \<Rightarrow> json" where
  "value_under kvs k = (case map_of kvs k of None \<Rightarrow> JNull | Some v \<Rightarrow> v)"

definition spec_item_id :: "json \<Rightarrow> json" where
  "spec_item_id it =
     (case it of
        JObj kvs \<Rightarrow> first_truthy (map (value_under kvs) [''Id'', ''ItemId'', ''item_id'', ''id''])
      | _ \<Rightarrow> it)"

definition spec_score :: "json \<Rightarrow> json" where
  "spec_score it =
     (case it of
        JObj kvs \<Rightarrow> first_truthy (map (value_under kvs) [''Score'', ''score''] @ [JInt 0])
      | _ \<Rightarrow> JInt 0)"

definition convertible :: "(string \<Rightarrow> real option) \<Rightarrow> json \<Rightarrow> bool" where
  "convertible strf it =
     (case py_float strf (spec_score it) of Inl err \<Rightarrow> False | Inr x \<Rightarrow> True)"

definition spec_record :: "(string \<Rightarrow> real option) \<Rightarrow> json \<Rightarrow> gorse_item" where
  "spec_record strf it =
     \<lparr>g_item_id = spec_item_id it,
      g_cf_score = (case py_float strf (spec_score it) of Inl err \<Rightarrow> 0 | Inr x \<Rightarrow> x)\<rparr>"

section \<open>The document store and the other collaborators\<close>

record like_doc =
  like_userId :: string
  like_feedId :: "string option"
  like_targetId :: "string option"

record comment_doc =
  comment_userId :: string
  comment_feedId :: "string option"

record saved_doc =
  saved_userId :: string
  saved_feedId :: "string option"

record repost_doc =
  repost_userId :: string
  originalFeedId :: "string option"

record follow_doc =
  followerId :: string
  followingId :: string
  follow_status :: string

record watch_doc =
  watch_user_id :: string
  watch_item_id :: "string option"
  watch_time :: "real option"

record interest_doc =
  interest_userId :: string
  interests :: "string list"

record explore_doc =
  explore_feedId :: "string option"
  explore_status :: string
  popularityScore :: "real option"

record related_doc =
  related_user_id :: string
  related_item_id :: string
  related_score :: "real option"

datatype gorse_reply = GorseError | GorseStatus nat "json option"

text \<open>
  Everything the request handler reads from outside: the collections (a \<open>find\<close> is a
  filter of the list, in the collection's order), the orders the store's \<open>sort\<close> gives,
  the reply of the external recommender, the library conversions, the clock, the random
  source of \<open>random.shuffle\<close> and the first 16 hex digits of the MD5 of the user and the
  time.
\<close>

record env =
  feeds_col :: "feed list"
  likes_col :: "like_doc list"
  comments_col :: "comment_doc list"
  saved_feeds_col :: "saved_doc list"
  reposts_col :: "repost_doc list"
  follows_col :: "follow_doc list"
  watch_col :: "watch_doc list"
  interests_col :: "interest_doc list"
  explore_feeds_col :: "explore_doc list"
  related_items_col :: "related_doc list"
  sort_createdAt_desc :: "feed list \<Rightarrow> feed list"
  sort_popularityScore_desc :: "explore_doc list \<Rightarrow> explore_doc list"
  sort_score_desc :: "related_doc list \<Rightarrow> related_doc list"
  gorse_get :: "string \<Rightarrow> nat \<Rightarrow> gorse_reply"
  str_to_float :: "string \<Rightarrow> real option"
  fromisoformat :: "string \<Rightarrow> parsed_dt option"
  utcnow :: real
  randbelow :: "nat \<Rightarrow> nat"
  md5_hex16 :: "string \<Rightarrow> real \<Rightarrow> string"

definition hex_digit :: "char \<Rightarrow> bool" where
  "hex_digit c = (c \<in> set ''0123456789abcdefABCDEF'')"

definition ObjectId_is_valid :: "string \<Rightarrow> bool" where
  "ObjectId_is_valid s = (length s = 24 \<and> list_all hex_digit s)"

text \<open>The truthy ones of a list of optional identifiers (\<open>if feed_id: ...\<close>).\<close>

fun truthy_ids :: "string option list \<Rightarrow> string list" where
  "truthy_ids [] = []"
| "truthy_ids (None # vs) = truthy_ids vs"
| "truthy_ids (Some s # vs) = (if s = [] then truthy_ids vs else s # truthy_ids vs)"

definition truthy_id :: "string option \<Rightarrow> bool" where
  "truthy_id v = (case v of None \<Rightarrow> False | Some s \<Rightarrow> s \<noteq> [])"

text \<open>\<open>str(v)\<close> of an optional identifier, and \<open>a or b\<close>.\<close>

definition str_id :: "string option \<Rightarrow> string" where
  "str_id v = (case v of None \<Rightarrow> ''None'' | Some s \<Rightarrow> s)"

definition or_id :: "string option \<Rightarrow> string option \<Rightarrow> string option" where
  "or_id a b = (if truthy_id a then a else b)"

section \<open>The exclusion set\<close>

definition get_user_seen_items :: "env \<Rightarrow> string \<Rightarrow> string set" where
  "get_user_seen_items e user_id =
     (if \<not> ObjectId_is_valid user_id then {}
      else set (truthy_ids (map like_feedId (filter (\<lambda>d. like_userId d = user_id) (likes_col e))))
         \<union> set (truthy_ids (map comment_feedId
                  (filter (\<lambda>d. comment_userId d = user_id) (comments_col e))))
         \<union> set (truthy_ids (map saved_feedId
                  (filter (\<lambda>d. saved_userId d = user_id) (saved_feeds_col e))))
         \<union> set (truthy_ids (map originalFeedId
                  (filter (\<lambda>d. repost_userId d = user_id) (reposts_col e))))
         \<union> set (truthy_ids (map watch_item_id
                  (filter (\<lambda>d. watch_user_id d = user_id) (watch_col e)))))"

definition get_user_created_items :: "env \<Rightarrow> string \<Rightarrow> string set" where
  "get_user_created_items e user_id =
     (if \<not> ObjectId_is_valid user_id then {}
      else set (map feed_id (filter (\<lambda>f. feed_userId f = user_id) (feeds_col e))))"

section \<open>The candidate source adapters\<close>

text \<open>The query \<open>follows_col.find({"followerId": user_oid, "status": "active"})\<close>.\<close>

definition active_following :: "env \<Rightarrow> string \<Rightarrow> string list" where
  "active_following e user_id =
     map followingId
       (filter (\<lambda>d. followerId d = user_id \<and> follow_status d = ''active'') (follows_col e))"

definition feed_candidate :: "real \<Rightarrow> feed \<Rightarrow> candidate" where
  "feed_candidate cs fd =
     \<lparr>item_id = feed_id fd, cf_score = None, content_score = Some cs, social_score = None,
      popularity_score = Some (get_or_zero (decayedPopularityScore fd)),
      category = Some ''post'', feed_data = Some fd\<rparr>"

definition candidate_interest :: "env \<Rightarrow> string \<Rightarrow> nat \<Rightarrow> candidate list" where
  "candidate_interest e user_id limit =
     (if \<not> ObjectId_is_valid user_id then []
      else case find (\<lambda>d. interest_userId d = user_id) (interests_col e) of
             None \<Rightarrow> []
           | Some ui \<Rightarrow>
               if interests ui = [] then []
               else map (feed_candidate 0.7)
                      (take limit
                         (filter (\<lambda>f. list_ex (\<lambda>t. t \<in> set (interests ui)) (hashtags f) \<and>
                                       feed_status f = ''active'')
                            (feeds_col e))))"

definition candidate_followed_users :: "env \<Rightarrow> string \<Rightarrow> nat \<Rightarrow> candidate list" where
  "candidate_followed_users e user_id limit =
     (if \<not> ObjectId_is_valid user_id then []
      else if active_following e user_id = [] then []
      else map (feed_candidate 0.9)
             (take limit
                (sort_createdAt_desc e
                   (filter (\<lambda>f. feed_userId f \<in> set (active_following e user_id) \<and>
                                 feed_status f = ''active'')
                      (feeds_col e)))))"

text \<open>\<open>candidate_scores[feed_id] = candidate_scores.get(feed_id, 0) + w\<close> on a dict
  that keeps insertion order.\<close>

fun add_score :: "(string \<times> real) list \<Rightarrow> string \<Rightarrow> real \<Rightarrow> (string \<times> real) list" where
  "add_score [] k w = [(k, 0 + w)]"
| "add_score ((k', x) # kvs) k w =
     (if k' = k then (k', x + w) # kvs else (k', x) # add_score kvs k w)"

definition social_candidate :: "string \<times> real \<Rightarrow> candidate" where
  "social_candidate kv =
     \<lparr>item_id = fst kv, cf_score = None, content_score = None, social_score = Some (snd kv),
      popularity_score = None, category = None, feed_data = None\<rparr>"

definition candidate_social_boost :: "env \<Rightarrow> string \<Rightarrow> candidate list" where
  "candidate_social_boost e user_id =
     (if \<not> ObjectId_is_valid user_id then []
      else if active_following e user_id = [] then []
      else map social_candidate
             (foldl (\<lambda>acc d. add_score acc (str_id (comment_feedId d)) 0.3)
                (foldl (\<lambda>acc d. add_score acc (str_id (like_feedId d)) 0.5) []
                   (filter (\<lambda>d. like_userId d \<in> set (active_following e user_id)) (likes_col e)))
                (filter (\<lambda>d. comment_userId d \<in> set (active_following e user_id))
                   (comments_col e))))"

definition candidate_trending :: "env \<Rightarrow> nat \<Rightarrow> candidate list" where
  "candidate_trending e limit =
     concat (map (\<lambda>d. if truthy_id (explore_feedId d)
                       then [\<lparr>item_id = str_id (explore_feedId d), cf_score = None,
                              content_score = Some 0.5, social_score = None,
                              popularity_score = Some (get_or_zero (popularityScore d)),
                              category = Some ''post'', feed_data = None\<rparr>]
                       else [])
               (take limit
                  (sort_popularityScore_desc e
                     (filter (\<lambda>d. explore_status d = ''active'') (explore_feeds_col e)))))"

text \<open>\<open>get_gorse_recommendations\<close>: every failure, also one of the parser, gives \<open>[]\<close>.\<close>

definition get_gorse_recommendations :: "env \<Rightarrow> string \<Rightarrow> nat \<Rightarrow> gorse_item list" where
  "get_gorse_recommendations e user_id n =
     (case gorse_get e user_id n of
        GorseError \<Rightarrow> []
      | GorseStatus code body \<Rightarrow>
          if code = 200
          then (case parse_gorse_items (str_to_float e) body of Inl err \<Rightarrow> [] | Inr items \<Rightarrow> items)
          else [])"

section \<open>The hybrid scoring engine\<close>

record scored =
  rec_item_id :: string
  score :: real
  rec_category :: string
  popularity :: real
  rec_feed_data :: "feed option"
  is_popular :: "bool option"

text \<open>\<open>round(x, n)\<close> on the exact value: to the nearest multiple of \<open>10^-n\<close>, ties to even.\<close>

definition py_round :: "real \<Rightarrow> nat \<Rightarrow> real" where
  "py_round x n =
     (let y = x * 10 ^ n; f = \<lfloor>y\<rfloor>; d = y - of_int f
      in of_int (if d < 1 / 2 then f else if 1 / 2 < d then f + 1
                 else if even f then f else f + 1) / 10 ^ n)"

text \<open>The dict \<open>social_map\<close> of \<open>compute_hybrid\<close>; a later entry overwrites an earlier one.\<close>

definition social_map :: "env \<Rightarrow> string \<Rightarrow> string \<Rightarrow> real option" where
  "social_map e user_id =
     map_of (rev (map (\<lambda>c. (item_id c, get_or_zero (social_score c)))
                    (candidate_social_boost e user_id)))"

definition lookup_item_doc :: "env \<Rightarrow> candidate \<Rightarrow> feed option" where
  "lookup_item_doc e c =
     (case feed_data c of
        Some d \<Rightarrow> Some d
      | None \<Rightarrow>
          if ObjectId_is_valid (item_id c)
          then find (\<lambda>f. feed_id f = item_id c) (feeds_col e)
          else None)"

definition item_popularity :: "feed option \<Rightarrow> real" where
  "item_popularity item_doc =
     get_or_zero (case item_doc of None \<Rightarrow> None | Some d \<Rightarrow> decayedPopularityScore d)"

definition friend_boost_of :: "env \<Rightarrow> string \<Rightarrow> string \<Rightarrow> real" where
  "friend_boost_of e user_id iid = get_or_zero (social_map e user_id iid)"

definition watch_boost_of :: "env \<Rightarrow> string \<Rightarrow> string \<Rightarrow> real" where
  "watch_boost_of e user_id iid =
     (if 5 \<le> get_or_zero
               (case find (\<lambda>w. watch_user_id w = user_id \<and> watch_item_id w = Some iid) (watch_col e) of
                  None \<Rightarrow> None
                | Some w \<Rightarrow> watch_time w)
      then 1.2 else 1.0)"

text \<open>The body of the loop of \<open>compute_hybrid\<close>.\<close>

definition score_candidate :: "env \<Rightarrow> string \<Rightarrow> candidate \<Rightarrow> py_error + scored" where
  "score_candidate e user_id c =
     (let iid = item_id c;
          item_doc = lookup_item_doc e c;
          popularity = item_popularity item_doc;
          cf = get_or_zero (cf_score c);
          content = get_or_zero (content_score c)
      in case compute_recency_score (fromisoformat e) (utcnow e) (utcnow e) item_doc of
           Inl err \<Rightarrow> Inl err
         | Inr recency \<Rightarrow>
             (let friend_boost = friend_boost_of e user_id iid;
                  watch_boost = watch_boost_of e user_id iid;
                  final = 0.35 * cf + 0.30 * content + 0.15 * recency + 0.10 * popularity
                          + 0.10 * friend_boost;
                  final = final * watch_boost
              in Inr \<lparr>rec_item_id = iid, score = py_round final 6,
                      rec_category = (case category c of None \<Rightarrow> ''post'' | Some k \<Rightarrow> k),
                      popularity = popularity, rec_feed_data = item_doc, is_popular = None\<rparr>))"

text \<open>\<open>sorted(scored, key=score, reverse=True)\<close> is stable.\<close>

definition compute_hybrid :: "env \<Rightarrow> string \<Rightarrow> candidate list \<Rightarrow> py_error + scored list" where
  "compute_hybrid e user_id candidates =
     (case map_result (score_candidate e user_id) candidates of
        Inl err \<Rightarrow> Inl err
      | Inr scored \<Rightarrow> Inr (sort_key (\<lambda>x. - score x) scored))"

section \<open>Generation of the full list\<close>

text \<open>One turn of the loop over \<open>gorse_items\<close>; a list or dict as identifier is not
  hashable, so the membership test raises.\<close>

definition gorse_candidate ::
  "string set \<Rightarrow> (string \<Rightarrow> feed option) \<Rightarrow> gorse_item \<Rightarrow> py_error + candidate list" where
  "gorse_candidate excluded_items feeds_map it =
     (case g_item_id it of
        JArr xs \<Rightarrow> Inl TypeError
      | JObj kvs \<Rightarrow> Inl TypeError
      | JStr iid \<Rightarrow>
          if iid \<in> excluded_items then Inr []
          else (case feeds_map iid of
                  None \<Rightarrow> Inr []
                | Some fd \<Rightarrow>
                    Inr [\<lparr>item_id = iid, cf_score = Some (g_cf_score it), content_score = None,
                          social_score = None,
                          popularity_score = Some (get_or_zero (decayedPopularityScore fd)),
                          category = Some ''post'', feed_data = Some fd\<rparr>])
      | _ \<Rightarrow> Inr [])"

definition gorse_feeds_map :: "env \<Rightarrow> string set \<Rightarrow> gorse_item list \<Rightarrow> string \<Rightarrow> feed option" where
  "gorse_feeds_map e excluded_items gorse_items =
     map_of (rev (map (\<lambda>f. (feed_id f, f))
       (filter (\<lambda>f. JStr (feed_id f) \<in> set (map g_item_id gorse_items) \<and>
                     ObjectId_is_valid (feed_id f) \<and>
                     feed_id f \<notin> excluded_items \<and> feed_status f = ''active'')
          (feeds_col e))))"

definition related_candidates :: "env \<Rightarrow> string \<Rightarrow> string set \<Rightarrow> candidate list" where
  "related_candidates e user_id excluded_items =
     map (\<lambda>r. \<lparr>item_id = related_item_id r, cf_score = Some (get_or_zero (related_score r)),
                content_score = None, social_score = None, popularity_score = None,
                category = None, feed_data = None\<rparr>)
       (filter (\<lambda>r. related_item_id r \<notin> excluded_items)
          (take 20 (sort_score_desc e
             (filter (\<lambda>d. related_user_id d = user_id) (related_items_col e)))))"

definition collect_candidates :: "env \<Rightarrow> string \<Rightarrow> string set \<Rightarrow> py_error + candidate list" where
  "collect_candidates e user_id excluded_items =
     (let gorse_items = get_gorse_recommendations e user_id PRELOAD_BUFFER;
          feeds_map = gorse_feeds_map e excluded_items gorse_items
      in case map_result (gorse_candidate excluded_items feeds_map) gorse_items of
           Inl err \<Rightarrow> Inl err
         | Inr gs \<Rightarrow>
             Inr (candidate_followed_users e user_id 50
                  @ candidate_interest e user_id 30
                  @ concat gs
                  @ candidate_trending e 20
                  @ related_candidates e user_id excluded_items
                  @ filter (\<lambda>s. item_id s \<notin> excluded_items) (candidate_social_boost e user_id)))"

definition generate_recommendations_for_user ::
  "env \<Rightarrow> string \<Rightarrow> string set \<Rightarrow> py_error + (scored list \<times> (string \<Rightarrow> feed option))" where
  "generate_recommendations_for_user e user_id excluded_items =
     (case collect_candidates e user_id excluded_items of
        Inl err \<Rightarrow> Inl err
      | Inr cands \<Rightarrow>
          (case compute_hybrid e user_id (merge_candidates [cands]) of
             Inl err \<Rightarrow> Inl err
           | Inr recommendations \<Rightarrow>
               Inr (recommendations,
                    gorse_feeds_map e excluded_items
                      (get_gorse_recommendations e user_id PRELOAD_BUFFER))))"

section \<open>The personalization mixer\<close>

text \<open>\<open>int(x)\<close> truncates towards zero; \<open>xs[:n]\<close> with a negative \<open>n\<close> drops from the end.\<close>

definition py_int :: "real \<Rightarrow> int" where
  "py_int x = (if 0 \<le> x then \<lfloor>x\<rfloor> else \<lceil>x\<rceil>)"

definition py_prefix :: "int \<Rightarrow> 'a list \<Rightarrow> 'a list" where
  "py_prefix n xs = (if 0 \<le> n then take (nat n) xs else take (length xs - nat (- n)) xs)"

text \<open>
  \<open>random.shuffle(x)\<close> of the standard library:
  \<open>for i in reversed(range(1, len(x))): j = randbelow(i + 1); x[i], x[j] = x[j], x[i]\<close>.
\<close>

fun shuffle_loop :: "(nat \<Rightarrow> nat) \<Rightarrow> nat \<Rightarrow> 'a list \<Rightarrow> 'a list" where
  "shuffle_loop rnd 0 x = x"
| "shuffle_loop rnd (Suc k) x =
     (let j = rnd (Suc k + 1) mod (Suc k + 1)
      in shuffle_loop rnd k (x[Suc k := x ! j, j := x ! Suc k]))"

definition shuffle :: "(nat \<Rightarrow> nat) \<Rightarrow> 'a list \<Rightarrow> 'a list" where
  "shuffle rnd x = shuffle_loop rnd (length x - 1) x"

definition categorize :: "scored list \<Rightarrow> scored list" where
  "categorize recommendations =
     map (\<lambda>r. r\<lparr>is_popular := Some (0.5 < popularity r)\<rparr>) recommendations"

definition mix_recommendations :: "(nat \<Rightarrow> nat) \<Rightarrow> real \<Rightarrow> scored list \<Rightarrow> scored list" where
  "mix_recommendations rnd personalized_ratio categorized_recs =
     (let popular_recs = filter (\<lambda>r. is_popular r = Some True) categorized_recs;
          personalized_recs = filter (\<lambda>r. is_popular r \<noteq> Some True) categorized_recs;
          total_needed = min (length categorized_recs) PRELOAD_BUFFER;
          num_personalized = py_int (real total_needed * personalized_ratio);
          num_popular = int total_needed - num_personalized;
          mixed_recommendations =
            shuffle rnd (py_prefix num_personalized personalized_recs
                         @ py_prefix num_popular popular_recs)
      in if length mixed_recommendations < total_needed
         then mixed_recommendations
              @ py_prefix (int total_needed - int (length mixed_recommendations))
                  (filter (\<lambda>r. r \<notin> set mixed_recommendations) categorized_recs)
         else mixed_recommendations)"

text \<open>
  The same mixing from the point where \<open>num_personalized\<close> has been computed, for any
  value of it.
\<close>

definition mix_with_count :: "(nat \<Rightarrow> nat) \<Rightarrow> int \<Rightarrow> scored list \<Rightarrow> scored list" where
  "mix_with_count rnd num_personalized categorized_recs =
     (let popular_recs = filter (\<lambda>r. is_popular r = Some True) categorized_recs;
          personalized_recs = filter (\<lambda>r. is_popular r \<noteq> Some True) categorized_recs;
          total_needed = min (length categorized_recs) PRELOAD_BUFFER;
          num_popular = int total_needed - num_personalized;
          mixed_recommendations =
            shuffle rnd (py_prefix num_personalized personalized_recs
                         @ py_prefix num_popular popular_recs)
      in if length mixed_recommendations < total_needed
         then mixed_recommendations
              @ py_prefix (int total_needed - int (length mixed_recommendations))
                  (filter (\<lambda>r. r \<notin> set mixed_recommendations) categorized_recs)
         else mixed_recommendations)"

section \<open>Presentation metadata\<close>

record metadata =
  meta_text :: string
  meta_title :: "string option"
  meta_likes :: int
  meta_comments :: int
  meta_created_at :: "real option"

record recommendation =
  out_item_id :: string
  out_score :: real
  out_category :: string
  friend_liked_by :: "string list"
  out_popularity :: real
  recommendation_type :: string
  out_metadata :: "metadata option"

definition user_liked_items :: "env \<Rightarrow> string \<Rightarrow> string set" where
  "user_liked_items e user_id =
     (if \<not> ObjectId_is_valid user_id then {}
      else set (truthy_ids (map (\<lambda>d. or_id (like_targetId d) (like_feedId d))
                  (filter (\<lambda>d. like_userId d = user_id) (likes_col e)))))"

definition friend_map :: "env \<Rightarrow> string \<Rightarrow> string \<Rightarrow> string list" where
  "friend_map e user_id iid =
     (if \<not> ObjectId_is_valid user_id then []
      else map like_userId
             (filter (\<lambda>d. like_userId d \<in> set (active_following e user_id) \<and>
                           str_id (or_id (like_targetId d) (like_feedId d)) = iid)
                (likes_col e)))"

text \<open>\<open>feed["createdAt"].isoformat() if feed.get("createdAt") else None\<close>: a string
  has no \<open>isoformat\<close>.\<close>

definition created_at_iso :: "feed \<Rightarrow> py_error + real option" where
  "created_at_iso fd =
     (case createdAt fd of
        None \<Rightarrow> Inr None
      | Some (TsDatetime t) \<Rightarrow> Inr (Some t)
      | Some (TsString s) \<Rightarrow> if s = [] then Inr None else Inl AttributeError)"

definition annotate ::
  "env \<Rightarrow> string \<Rightarrow> (string \<Rightarrow> feed option) \<Rightarrow> scored \<Rightarrow> py_error + recommendation" where
  "annotate e user_id feeds_map r =
     (let iid = rec_item_id r;
          recommendation =
            \<lparr>out_item_id = iid, out_score = score r, out_category = rec_category r,
             friend_liked_by = friend_map e user_id iid, out_popularity = popularity r,
             recommendation_type = (if is_popular r = Some True then ''popular'' else ''personalized''),
             out_metadata = None\<rparr>
      in case (case rec_feed_data r of Some d \<Rightarrow> Some d | None \<Rightarrow> feeds_map iid) of
           None \<Rightarrow> Inr recommendation
         | Some fd \<Rightarrow>
             (case created_at_iso fd of
                Inl err \<Rightarrow> Inl err
              | Inr created \<Rightarrow>
                  Inr (recommendation\<lparr>out_metadata :=
                         Some \<lparr>meta_text = take 200 (case feed_text fd of None \<Rightarrow> [] | Some t \<Rightarrow> t),
                               meta_title = feed_title fd,
                               meta_likes = (case likeCount fd of None \<Rightarrow> 0 | Some n \<Rightarrow> n),
                               meta_comments = (case commentCount fd of None \<Rightarrow> 0 | Some n \<Rightarrow> n),
                               meta_created_at = created\<rparr>\<rparr>)))"

text \<open>
  The part of \<open>recommend\<close> from \<open># Generate fresh\<close> to the end of the loop that builds
  \<open>full_list\<close>: the result is \<open>full_list\<close> with the scored list it was made from.
\<close>

definition build_full_list ::
  "env \<Rightarrow> string \<Rightarrow> real \<Rightarrow> py_error + (recommendation list \<times> scored list)" where
  "build_full_list e user_id personalized_ratio =
     (let excluded_items = get_user_seen_items e user_id \<union> get_user_created_items e user_id
      in case generate_recommendations_for_user e user_id excluded_items of
           Inl err \<Rightarrow> Inl err
         | Inr (recommendations, feeds_map) \<Rightarrow>
             (case map_result (annotate e user_id feeds_map)
                     (filter (\<lambda>r. rec_item_id r \<notin> user_liked_items e user_id)
                        (mix_recommendations (randbelow e) personalized_ratio
                           (categorize recommendations))) of
                Inl err \<Rightarrow> Inl err
              | Inr full_list \<Rightarrow> Inr (full_list, recommendations)))"

section \<open>The session cache\<close>

text \<open>
  The cache store: the flag \<open>REDIS_AVAILABLE\<close> (with a client at hand), whether the server
  answers (a command to a server that does not answer raises), and the entries, each
  with the instant at which it expires.
\<close>

record redis =
  REDIS_AVAILABLE :: bool
  redis_up :: bool
  redis_data :: "(string \<times> recommendation list \<times> real) list"

definition get_cache_key :: "string \<Rightarrow> string option \<Rightarrow> string" where
  "get_cache_key user_id session_id =
     (if truthy_id session_id then ''rec_session:'' @ user_id @ '':'' @ str_id session_id
      else ''rec_latest:'' @ user_id)"

definition redis_get :: "redis \<Rightarrow> real \<Rightarrow> string \<Rightarrow> recommendation list option" where
  "redis_get st now key =
     (case map_of (redis_data st) key of
        None \<Rightarrow> None
      | Some (v, expires) \<Rightarrow> if now < expires then Some v else None)"

definition redis_setex :: "redis \<Rightarrow> real \<Rightarrow> string \<Rightarrow> real \<Rightarrow> recommendation list \<Rightarrow> redis" where
  "redis_setex st now key ttl v =
     st\<lparr>redis_data := (key, v, now + ttl) # filter (\<lambda>kv. fst kv \<noteq> key) (redis_data st)\<rparr>"

text \<open>\<open>session_id or hashlib.md5(f"{user_id}{datetime.utcnow()}".encode()).hexdigest()[:16]\<close>;
  the digest is the parameter \<open>md5\<close>.\<close>

definition new_session :: "(string \<Rightarrow> real \<Rightarrow> string) \<Rightarrow> real \<Rightarrow> string \<Rightarrow> string option \<Rightarrow> string" where
  "new_session md5 now user_id session_id =
     (if truthy_id session_id then str_id session_id else md5 user_id now)"

text \<open>
  \<open>cache_recommendations\<close> returns the session token (\<open>None\<close> from the \<open>except\<close>
  branch) and leaves the store as its second result. \<open>now\<close> is the instant of the call.
\<close>

definition cache_recommendations ::
  "(string \<Rightarrow> real \<Rightarrow> string) \<Rightarrow> real \<Rightarrow> redis \<Rightarrow> string \<Rightarrow> recommendation list \<Rightarrow>
     string option \<Rightarrow> string option \<times> redis" where
  "cache_recommendations md5 now st user_id recommendations session_id =
     (if \<not> REDIS_AVAILABLE st then (Some (new_session md5 now user_id session_id), st)
      else if \<not> redis_up st then (None, st)
      else (Some (new_session md5 now user_id session_id),
            redis_setex st now (get_cache_key user_id session_id) CACHE_TTL recommendations))"

definition get_cached_recommendations ::
  "real \<Rightarrow> redis \<Rightarrow> string \<Rightarrow> string \<Rightarrow> recommendation list option" where
  "get_cached_recommendations now st user_id session_id =
     (if \<not> REDIS_AVAILABLE st then None
      else if \<not> redis_up st then None
      else redis_get st now (get_cache_key user_id (Some session_id)))"

section \<open>The request handler\<close>

record request =
  arg_page :: int
  arg_limit :: int
  arg_session_id :: "string option"
  arg_refresh :: bool
  arg_personalized_ratio :: real

record stats =
  total_popular :: nat
  total_personalized :: nat
  filtered_already_liked :: nat
  personalization_ratio :: real

record response =
  resp_user :: string
  resp_page :: int
  resp_limit :: int
  resp_session_id :: "string option"
  resp_total :: nat
  has_more :: bool
  results_count :: nat
  recommendations :: "recommendation list"
  cache :: string
  resp_stats :: "stats option"

datatype http_result = Http200 response | Http500 py_error

definition clamp_page :: "int \<Rightarrow> int" where
  "clamp_page page = (if page < 1 then 1 else page)"

definition clamp_limit :: "int \<Rightarrow> int" where
  "clamp_limit limit =
     (let limit = (if limit < MIN_PAGE_SIZE then MIN_PAGE_SIZE else limit)
      in if limit > MAX_PAGE_SIZE then MAX_PAGE_SIZE else limit)"

definition clamp_ratio :: "real \<Rightarrow> real" where
  "clamp_ratio r = max 0.0 (min 1.0 r)"

text \<open>\<open>xs[start:end]\<close> for indices that are not negative.\<close>

definition py_slice :: "int \<Rightarrow> int \<Rightarrow> 'a list \<Rightarrow> 'a list" where
  "py_slice start end xs = drop (nat start) (take (nat end) xs)"

text \<open>
  The block \<open># Check cache\<close> of \<open>recommend\<close>: the response of a cache hit, or \<open>None\<close> when
  control falls through to the regeneration.
\<close>

definition serve_cached :: "real \<Rightarrow> redis \<Rightarrow> string \<Rightarrow> request \<Rightarrow> response option" where
  "serve_cached now st user_id req =
     (let page = clamp_page (arg_page req);
          limit = clamp_limit (arg_limit req);
          start = (page - 1) * limit;
          end = start + limit
      in if truthy_id (arg_session_id req) \<and> \<not> arg_refresh req
         then (case get_cached_recommendations now st user_id (str_id (arg_session_id req)) of
                 None \<Rightarrow> None
               | Some cached \<Rightarrow>
                   if cached = [] then None
                   else if end \<ge> int (length cached) \<and> length cached < PRELOAD_BUFFER then None
                   else Some \<lparr>resp_user = user_id, resp_page = page, resp_limit = limit,
                              resp_session_id = arg_session_id req,
                              resp_total = length cached,
                              has_more = (end < int (length cached)),
                              results_count = length (py_slice start end cached),
                              recommendations = py_slice start end cached,
                              cache = ''hit'', resp_stats = None\<rparr>)
         else None)"

definition regenerate :: "env \<Rightarrow> redis \<Rightarrow> string \<Rightarrow> request \<Rightarrow> http_result \<times> redis" where
  "regenerate e st user_id req =
     (let page = clamp_page (arg_page req);
          limit = clamp_limit (arg_limit req);
          start = (page - 1) * limit;
          end = start + limit;
          personalized_ratio = clamp_ratio (arg_personalized_ratio req)
      in case build_full_list e user_id personalized_ratio of
           Inl err \<Rightarrow> (Http500 err, st)
         | Inr (full_list, recs) \<Rightarrow>
             (let written = cache_recommendations (md5_hex16 e) (utcnow e) st user_id full_list
                              (arg_session_id req)
              in (Http200
                    \<lparr>resp_user = user_id, resp_page = page, resp_limit = limit,
                     resp_session_id = fst written,
                     resp_total = length full_list,
                     has_more = (end < int (length full_list)),
                     results_count = length (py_slice start end full_list),
                     recommendations = py_slice start end full_list,
                     cache = ''miss'',
                     resp_stats = Some
                       \<lparr>total_popular =
                          length (filter (\<lambda>r. recommendation_type r = ''popular'') full_list),
                        total_personalized =
                          length (filter (\<lambda>r. recommendation_type r = ''personalized'') full_list),
                        filtered_already_liked =
                          card (user_liked_items e user_id \<inter> set (map rec_item_id recs)),
                        personalization_ratio = personalized_ratio\<rparr>\<rparr>,
                  snd written)))"

definition recommend :: "env \<Rightarrow> redis \<Rightarrow> string \<Rightarrow> request \<Rightarrow> http_result \<times> redis" where
  "recommend e st user_id req =
     (case serve_cached (utcnow e) st user_id req of
        Some resp \<Rightarrow> (Http200 resp, st)
      | None \<Rightarrow> regenerate e st user_id req)"

section \<open>Properties of the merge\<close>


lemma merge_candidates_concat:
  "merge_candidates ls = foldl merge_step [] (concat ls)"
proof -
  have "foldl (\<lambda>merged lst. foldl merge_step merged lst) a ls = foldl merge_step a (concat ls)" for a
    by (induction ls arbitrary: a) simp_all
  then show ?thesis by (simp add: merge_candidates_def)
qed

lemma item_id_merge_into [simp]: "item_id (merge_into m c) = item_id m"
  by (simp add: merge_into_def)

lemma lookup_merge_step:
  "lookup_id (merge_step ms c) i =
     (if i = item_id c
      then Some (case lookup_id ms i of None \<Rightarrow> c | Some m \<Rightarrow> merge_into m c)
      else lookup_id ms i)"
  by (induction ms) (auto simp: lookup_id_def)

lemma ids_merge_step:
  "map item_id (merge_step ms c) =
     (if item_id c \<in> set (map item_id ms) then map item_id ms else map item_id ms @ [item_id c])"
  by (induction ms) auto

lemma distinct_merge_step:
  "distinct (map item_id ms) \<Longrightarrow> distinct (map item_id (merge_step ms c))"
  by (simp add: ids_merge_step)

lemma set_ids_merge_step:
  "set (map item_id (merge_step ms c)) = insert (item_id c) (set (map item_id ms))"
  by (auto simp: ids_merge_step)

lemma lookup_id_None: "lookup_id ms i = None \<longleftrightarrow> i \<notin> set (map item_id ms)"
  by (auto simp: lookup_id_def find_None_iff)

lemma lookup_id_Some_id: "lookup_id ms i = Some m \<Longrightarrow> item_id m = i \<and> m \<in> set ms"
  by (auto simp: lookup_id_def find_Some_iff)

lemma lookup_id_member:
  "distinct (map item_id ms) \<Longrightarrow> m \<in> set ms \<Longrightarrow> lookup_id ms (item_id m) = Some m"
  by (induction ms) (auto simp: lookup_id_def)

lemma supplied_snoc:
  "supplied fld i (cs @ [c]) =
     supplied fld i cs @ (if item_id c = i then (case fld c of None \<Rightarrow> [] | Some v \<Rightarrow> [v]) else [])"
  by (auto simp: supplied_def List.map_filter_def split: option.splits)

lemma supplied_empty_no_id:
  "i \<notin> set (map item_id cs) \<Longrightarrow> supplied fld i cs = []"
  by (auto simp: supplied_def List.map_filter_def filter_empty_conv)

lemma max_supplied_alt:
  "max_supplied fld i cs =
     (if supplied fld i cs = [] then None else Some (Max (set (supplied fld i cs))))"
  by (simp add: max_supplied_def split: list.splits)

lemma last_supplied_alt:
  "last_supplied fld i cs =
     (if supplied fld i cs = [] then None else Some (last (supplied fld i cs)))"
  by (simp add: last_supplied_def split: list.splits)

lemma max_supplied_snoc:
  assumes "nonneg_field (fld c)" "item_id c = i"
  shows "max_supplied fld i (cs @ [c]) = merge_key (max_supplied fld i cs) (fld c)"
proof (cases "fld c")
  case None
  then show ?thesis using assms by (simp add: max_supplied_alt supplied_snoc merge_key_def)
next
  case (Some v)
  then have v: "0 \<le> v" using assms by (simp add: nonneg_field_def get_or_zero_def)
  show ?thesis
  proof (cases "supplied fld i cs = []")
    case True
    then show ?thesis using Some v assms
      by (simp add: max_supplied_alt supplied_snoc merge_key_def get_or_zero_def)
  next
    case False
    then show ?thesis using Some assms
      by (simp add: max_supplied_alt supplied_snoc merge_key_def get_or_zero_def max.commute)
  qed
qed

lemma max_supplied_snoc_other:
  "item_id c \<noteq> i \<Longrightarrow> max_supplied fld i (cs @ [c]) = max_supplied fld i cs"
  by (simp add: max_supplied_alt supplied_snoc)

lemma last_supplied_snoc:
  "item_id c = i \<Longrightarrow> last_supplied fld i (cs @ [c]) =
     (case fld c of None \<Rightarrow> last_supplied fld i cs | Some d \<Rightarrow> Some d)"
  by (simp add: last_supplied_alt supplied_snoc split: option.splits)

lemma last_supplied_snoc_other:
  "item_id c \<noteq> i \<Longrightarrow> last_supplied fld i (cs @ [c]) = last_supplied fld i cs"
  by (simp add: last_supplied_alt supplied_snoc)



lemma merged_ok_new:
  assumes "nonneg_scores c" "item_id c \<notin> set (map item_id cs)"
  shows "merged_ok (cs @ [c]) c"
proof -
  have e: "supplied fld (item_id c) cs = []" for fld :: "candidate \<Rightarrow> 'b option"
    using assms(2) by (rule supplied_empty_no_id)
  have m: "max_supplied fld (item_id c) (cs @ [c]) = fld c" if n: "nonneg_field (fld c)" for fld
  proof -
    have "max_supplied fld (item_id c) (cs @ [c]) = merge_key (max_supplied fld (item_id c) cs) (fld c)"
      using n by (rule max_supplied_snoc) simp
    also have "\<dots> = fld c"
      using n e[of fld]
      by (simp add: max_supplied_alt merge_key_def get_or_zero_def nonneg_field_def
          split: option.splits)
    finally show ?thesis .
  qed
  have l: "last_supplied feed_data (item_id c) (cs @ [c]) = feed_data c"
    using e[of feed_data] by (simp add: last_supplied_alt supplied_snoc split: option.splits)
  show ?thesis using assms(1)
    by (simp add: merged_ok_def scores_ok_def m l nonneg_scores_def)
qed

lemma merged_ok_into:
  assumes "nonneg_scores c" "merged_ok cs m" "item_id m = item_id c"
  shows "merged_ok (cs @ [c]) (merge_into m c)"
  using assms
  by (simp add: merged_ok_def scores_ok_def nonneg_scores_def max_supplied_snoc last_supplied_snoc merge_into_def
      split: option.splits)

lemma merged_ok_other:
  "merged_ok cs m \<Longrightarrow> item_id m \<noteq> item_id c \<Longrightarrow> merged_ok (cs @ [c]) m"
  by (simp add: merged_ok_def scores_ok_def max_supplied_snoc_other last_supplied_snoc_other)

lemma merge_fold_invariant:
  assumes "list_all nonneg_scores cs"
  shows "distinct (map item_id (foldl merge_step [] cs)) \<and>
         set (map item_id (foldl merge_step [] cs)) = set (map item_id cs) \<and>
         list_all (merged_ok cs) (foldl merge_step [] cs)"
  using assms
proof (induction cs rule: rev_induct)
  case Nil
  then show ?case by simp
next
  case (snoc c cs)
  let ?M = "foldl merge_step [] cs"
  from snoc have ih: "distinct (map item_id ?M)" "set (map item_id ?M) = set (map item_id cs)"
    "list_all (merged_ok cs) ?M" and c: "nonneg_scores c"
    by simp_all
  have d: "distinct (map item_id (merge_step ?M c))" using ih(1) by (rule distinct_merge_step)
  have s: "set (map item_id (merge_step ?M c)) = set (map item_id (cs @ [c]))"
    using ih(2) by (simp add: set_ids_merge_step del: set_map)
  have "merged_ok (cs @ [c]) m" if m: "m \<in> set (merge_step ?M c)" for m
  proof -
    from d m have l: "lookup_id (merge_step ?M c) (item_id m) = Some m"
      by (rule lookup_id_member)
    show ?thesis
    proof (cases "item_id m = item_id c")
      case True
      show ?thesis
      proof (cases "lookup_id ?M (item_id c)")
        case None
        with l True have "m = c" by (simp add: lookup_merge_step)
        moreover from None ih(2) have "item_id c \<notin> set (map item_id cs)"
          by (simp add: lookup_id_None del: set_map)
        ultimately show ?thesis using c merged_ok_new by simp
      next
        case (Some m0)
        with l True have "m = merge_into m0 c" by (simp add: lookup_merge_step)
        moreover from Some have "item_id m0 = item_id c" "m0 \<in> set ?M"
          by (auto dest: lookup_id_Some_id)
        moreover then have "merged_ok cs m0" using ih(3) by (simp add: list_all_iff)
        ultimately show ?thesis using c merged_ok_into by simp
      qed
    next
      case False
      with l have "lookup_id ?M (item_id m) = Some m" by (simp add: lookup_merge_step)
      then have "m \<in> set ?M" by (auto dest: lookup_id_Some_id)
      then have "merged_ok cs m" using ih(3) by (simp add: list_all_iff)
      then show ?thesis using False by (rule merged_ok_other)
    qed
  qed
  then have "list_all (merged_ok (cs @ [c])) (merge_step ?M c)" by (simp add: list_all_iff)
  with d s show ?case by simp
qed


lemma set_supplied:
  "set (supplied fld i cs) = {v. \<exists>c \<in> set cs. item_id c = i \<and> fld c = Some v}"
  by (force simp: supplied_def List.map_filter_def)

lemma max_supplied_cong_set:
  "set cs = set cs' \<Longrightarrow> max_supplied fld i cs = max_supplied fld i cs'"
proof -
  assume "set cs = set cs'"
  then have "set (supplied fld i cs) = set (supplied fld i cs')" by (simp add: set_supplied)
  moreover have "supplied fld i xs = [] \<longleftrightarrow> set (supplied fld i xs) = {}" for xs by simp
  ultimately show ?thesis unfolding max_supplied_alt by presburger
qed

lemma scores_ok_cong_set: "set cs = set cs' \<Longrightarrow> scores_ok cs m = scores_ok cs' m"
  by (simp add: scores_ok_def max_supplied_cong_set[of cs cs'])


lemma max_supplied_append:
  "max_supplied fld i (xs @ ys) = join_max (max_supplied fld i xs) (max_supplied fld i ys)"
proof -
  have s: "supplied fld i (xs @ ys) = supplied fld i xs @ supplied fld i ys"
    by (simp add: supplied_def List.map_filter_def)
  show ?thesis
    by (cases "supplied fld i xs = []"; cases "supplied fld i ys = []")
       (simp_all add: max_supplied_alt s Max_Un)
qed

lemma filter_id_distinct:
  "distinct (map item_id ms) \<Longrightarrow>
     filter (\<lambda>m. item_id m = i) ms = (case lookup_id ms i of None \<Rightarrow> [] | Some m \<Rightarrow> [m])"
proof (induction ms)
  case Nil
  then show ?case by (simp add: lookup_id_def)
next
  case (Cons a ms)
  show ?case
  proof (cases "item_id a = i")
    case True
    with Cons.prems have "i \<notin> set (map item_id ms)" by auto
    then have "filter (\<lambda>m. item_id m = i) ms = []" by (auto simp: filter_empty_conv)
    with True show ?thesis by (simp add: lookup_id_def)
  next
    case False
    with Cons show ?thesis by (simp add: lookup_id_def)
  qed
qed

lemma max_supplied_merged:
  assumes d: "distinct (map item_id ms)" and ids: "set (map item_id ms) = set (map item_id cs)"
    and ok: "\<And>m. m \<in> set ms \<Longrightarrow> fld m = max_supplied fld (item_id m) cs"
  shows "max_supplied fld i ms = max_supplied fld i cs"
proof (cases "lookup_id ms i")
  case None
  then have "i \<notin> set (map item_id cs)" using ids by (simp add: lookup_id_None del: set_map)
  then have "supplied fld i cs = []" by (rule supplied_empty_no_id)
  moreover have "supplied fld i ms = []"
    using None d by (simp add: supplied_def filter_id_distinct List.map_filter_def)
  ultimately show ?thesis by (simp add: max_supplied_alt)
next
  case (Some m)
  then have m: "item_id m = i" "m \<in> set ms" by (auto dest: lookup_id_Some_id)
  have "supplied fld i ms = (case fld m of None \<Rightarrow> [] | Some v \<Rightarrow> [v])"
    using Some d by (simp add: supplied_def filter_id_distinct List.map_filter_def split: option.splits)
  then have "max_supplied fld i ms = fld m"
    by (simp add: max_supplied_alt split: option.splits)
  with ok[OF m(2)] m(1) show ?thesis by simp
qed

lemma nonneg_max_supplied:
  assumes "list_all (\<lambda>c. nonneg_field (fld c)) cs"
  shows "nonneg_field (max_supplied fld i cs)"
proof (cases "supplied fld i cs = []")
  case True
  then show ?thesis by (simp add: max_supplied_alt nonneg_field_def get_or_zero_def)
next
  case False
  then have "Max (set (supplied fld i cs)) \<in> set (supplied fld i cs)" by (intro Max_in) simp_all
  then obtain c where "c \<in> set cs" "fld c = Some (Max (set (supplied fld i cs)))"
    by (auto simp: set_supplied)
  with assms have "0 \<le> Max (set (supplied fld i cs))"
    by (auto simp: list_all_iff nonneg_field_def get_or_zero_def)
  with False show ?thesis by (simp add: max_supplied_alt nonneg_field_def get_or_zero_def)
qed

text \<open>
  Claim C3. For candidate lists whose score fields are non-negative, the merge returns each
  identifier of the input exactly once; the \<open>cf_score\<close>, \<open>content_score\<close> and
  \<open>social_score\<close> of a merged record are each the maximum of the values that the
  occurrences of its identifier supply (absent when none supplies one), and its
  \<open>feed_data\<close> is the one supplied last. The score fields are therefore the same for
  every reordering and regrouping of the sources, and for merging a first part, then the
  merged result with the rest.
\<close>

theorem merge_candidates_contract:
  assumes nn: "list_all nonneg_scores (concat ls)"
  shows "distinct (map item_id (merge_candidates ls)) \<and>
         set (map item_id (merge_candidates ls)) = set (map item_id (concat ls)) \<and>
         list_all (merged_ok (concat ls)) (merge_candidates ls) \<and>
         (\<forall>ls'. mset (concat ls') = mset (concat ls) \<longrightarrow>
                list_all (scores_ok (concat ls)) (merge_candidates ls')) \<and>
         (\<forall>xs ys. concat ls = xs @ ys \<longrightarrow>
                list_all (scores_ok (concat ls)) (merge_candidates [merge_candidates [xs], ys]))"
proof -
  note inv = merge_fold_invariant[OF nn, folded merge_candidates_concat]
  have perm: "list_all (scores_ok (concat ls)) (merge_candidates ls')"
    if eq: "mset (concat ls') = mset (concat ls)" for ls'
  proof -
    from eq have s: "set (concat ls') = set (concat ls)" by (rule mset_eq_setD)
    with nn have "list_all nonneg_scores (concat ls')" by (simp add: list_all_iff del: set_concat)
    from merge_fold_invariant[OF this, folded merge_candidates_concat]
    have "list_all (scores_ok (concat ls')) (merge_candidates ls')"
      by (simp add: list_all_iff merged_ok_def)
    moreover have "scores_ok (concat ls') = scores_ok (concat ls)"
      by (rule ext) (rule scores_ok_cong_set[OF s])
    ultimately show ?thesis by (simp only:)
  qed
  have grp: "list_all (scores_ok (concat ls)) (merge_candidates [merge_candidates [xs], ys])"
    if eq: "concat ls = xs @ ys" for xs ys
  proof -
    let ?M = "foldl merge_step [] xs"
    from nn eq have nx: "list_all nonneg_scores xs" and ny: "list_all nonneg_scores ys" by simp_all
    from merge_fold_invariant[OF nx]
    have d: "distinct (map item_id ?M)" and ids: "set (map item_id ?M) = set (map item_id xs)"
      and ok: "list_all (merged_ok xs) ?M" by simp_all
    have fld: "max_supplied f i ?M = max_supplied f i xs"
      if "\<And>m. m \<in> set ?M \<Longrightarrow> f m = max_supplied f (item_id m) xs" for f i
      using d ids that by (rule max_supplied_merged)
    have okm: "scores_ok xs m" if "m \<in> set ?M" for m
      using ok that by (simp add: list_all_iff merged_ok_def)
    have nM: "list_all nonneg_scores ?M"
    proof -
      have "nonneg_scores m" if m: "m \<in> set ?M" for m
      proof -
        have "nonneg_field (max_supplied cf_score (item_id m) xs)"
          "nonneg_field (max_supplied content_score (item_id m) xs)"
          "nonneg_field (max_supplied social_score (item_id m) xs)"
          using nx by (auto intro!: nonneg_max_supplied simp: list_all_iff nonneg_scores_def)
        with okm[OF m] show ?thesis by (simp add: nonneg_scores_def scores_ok_def)
      qed
      then show ?thesis by (simp add: list_all_iff)
    qed
    from nM ny have "list_all nonneg_scores (?M @ ys)" by simp
    from merge_fold_invariant[OF this]
    have r: "list_all (merged_ok (?M @ ys)) (foldl merge_step [] (?M @ ys))" by simp
    have "scores_ok (xs @ ys) m = scores_ok (?M @ ys) m" for m
      using okm by (simp add: scores_ok_def max_supplied_append fld)
    with r have "list_all (scores_ok (xs @ ys)) (foldl merge_step [] (?M @ ys))"
      by (simp add: list_all_iff merged_ok_def)
    then show ?thesis by (simp add: merge_candidates_def eq)
  qed
  from inv perm grp show ?thesis by blast
qed

theorem merge_candidates_contract_witness:
  "list_all nonneg_scores (concat
     [[\<lparr>item_id = ''a'', cf_score = Some 0.2, content_score = None, social_score = None,
        popularity_score = None, category = None, feed_data = None\<rparr>,
       \<lparr>item_id = ''b'', cf_score = None, content_score = Some 0.7, social_score = None,
        popularity_score = None, category = None, feed_data = None\<rparr>],
      [\<lparr>item_id = ''a'', cf_score = Some 0.9, content_score = Some 0.5, social_score = None,
        popularity_score = None, category = None, feed_data = None\<rparr>]]) \<and>
   distinct (map item_id (merge_candidates
     [[\<lparr>item_id = ''a'', cf_score = Some 0.2, content_score = None, social_score = None,
        popularity_score = None, category = None, feed_data = None\<rparr>,
       \<lparr>item_id = ''b'', cf_score = None, content_score = Some 0.7, social_score = None,
        popularity_score = None, category = None, feed_data = None\<rparr>],
      [\<lparr>item_id = ''a'', cf_score = Some 0.9, content_score = Some 0.5, social_score = None,
        popularity_score = None, category = None, feed_data = None\<rparr>]])) \<and>
   map cf_score (merge_candidates
     [[\<lparr>item_id = ''a'', cf_score = Some 0.2, content_score = None, social_score = None,
        popularity_score = None, category = None, feed_data = None\<rparr>,
       \<lparr>item_id = ''b'', cf_score = None, content_score = Some 0.7, social_score = None,
        popularity_score = None, category = None, feed_data = None\<rparr>],
      [\<lparr>item_id = ''a'', cf_score = Some 0.9, content_score = Some 0.5, social_score = None,
        popularity_score = None, category = None, feed_data = None\<rparr>]]) = [Some 0.9, None]"
  (is "list_all nonneg_scores (concat ?L) \<and> ?D \<and> ?V")
proof -
  have h: "list_all nonneg_scores (concat ?L)"
    by (simp add: nonneg_scores_def nonneg_field_def get_or_zero_def)
  from merge_candidates_contract[OF h] have "?D" by blast
  moreover have "?V"
    by (simp add: merge_candidates_def merge_into_def merge_key_def get_or_zero_def)
  ultimately show ?thesis using h by blast
qed

section \<open>Properties of the recency score\<close>

text \<open>
  Claim C6, as the spec states it, fails: a timestamp string that cannot be parsed is
  replaced by the current time, so its score is 1.0 and not 0.2.
\<close>

theorem recency_unparseable_counterexample:
  "compute_recency_score Map.empty 1000 1000
     (Some \<lparr>feed_id = ''f1'', feed_userId = ''u1'', feed_status = ''active'', hashtags = [],
            createdAt = Some (TsString ''yesterday''), decayedPopularityScore = None,
            feed_text = None, feed_title = None, likeCount = None, commentCount = None\<rparr>)
   = Inr 1 \<and> (1::real) \<noteq> 0.2"
  by (simp add: compute_recency_score_def)

text \<open>
  Claim C6, amended. When the creation timestamp is a naive datetime, the recency score
  is 1.0 for an age under 1 hour, 0.8 under 24 hours, 0.5 under 72 hours and 0.2
  otherwise; the same holds for a string that parses to a naive datetime. When the
  document is empty or the timestamp is absent or empty, the score is 0.2. When the
  timestamp is a non-empty string that cannot be parsed, the current time stands in for
  it and the score is 1.0 (less than an hour passing between the two clock readings).
\<close>

theorem recency_step_function:
  "compute_recency_score p t0 t1 None = Inr 0.2 \<and>
   (createdAt d = None \<or> createdAt d = Some (TsString []) \<longrightarrow>
      compute_recency_score p t0 t1 (Some d) = Inr 0.2) \<and>
   (createdAt d = Some (TsDatetime t) \<or>
    (createdAt d = Some (TsString s) \<and> s \<noteq> [] \<and> p (replace_Z s) = Some (NaiveDT t)) \<longrightarrow>
      compute_recency_score p t0 t1 (Some d) =
        Inr (if (t1 - t) / 3600 < 1 then 1.0
             else if (t1 - t) / 3600 < 24 then 0.8
             else if (t1 - t) / 3600 < 72 then 0.5 else 0.2)) \<and>
   (createdAt d = Some (TsString s) \<and> s \<noteq> [] \<and> p (replace_Z s) = None \<and> t1 - t0 < 3600 \<longrightarrow>
      compute_recency_score p t0 t1 (Some d) = Inr 1.0)"
  by (auto simp: compute_recency_score_def Let_def)

theorem recency_step_function_witness:
  "compute_recency_score Map.empty 0 36000
     (Some \<lparr>feed_id = ''f1'', feed_userId = ''u1'', feed_status = ''active'', hashtags = [],
            createdAt = Some (TsDatetime 0), decayedPopularityScore = None,
            feed_text = None, feed_title = None, likeCount = None, commentCount = None\<rparr>)
   = Inr 0.8 \<and>
   compute_recency_score Map.empty 0 1
     (Some \<lparr>feed_id = ''f1'', feed_userId = ''u1'', feed_status = ''active'', hashtags = [],
            createdAt = Some (TsString ''soon''), decayedPopularityScore = None,
            feed_text = None, feed_title = None, likeCount = None, commentCount = None\<rparr>)
   = Inr 1 \<and>
   compute_recency_score Map.empty 0 1
     (Some \<lparr>feed_id = ''f1'', feed_userId = ''u1'', feed_status = ''active'', hashtags = [],
            createdAt = None, decayedPopularityScore = None,
            feed_text = None, feed_title = None, likeCount = None, commentCount = None\<rparr>)
   = Inr 0.2"
  (is "?A \<and> ?B \<and> ?C")
proof -
  let ?d = "\<lambda>ts. \<lparr>feed_id = ''f1'', feed_userId = ''u1'', feed_status = ''active'', hashtags = [],
            createdAt = ts, decayedPopularityScore = None,
            feed_text = None, feed_title = None, likeCount = None, commentCount = None\<rparr>"
  have "?A"
    using recency_step_function[of Map.empty 0 36000 "?d (Some (TsDatetime 0))" 0 "''x''"]
    by simp
  moreover have "?B"
    using recency_step_function[of Map.empty 0 1 "?d (Some (TsString ''soon''))" 0 "''soon''"]
    by simp
  moreover have "?C"
    using recency_step_function[of Map.empty 0 1 "?d None" 0 "''x''"]
    by simp
  ultimately show ?thesis by blast
qed

section \<open>Properties of the adapter of the external recommender\<close>

lemma map_result_length:
  "map_result f xs = Inr ys \<Longrightarrow> length ys = length xs"
  by (induction xs arbitrary: ys) (auto split: sum.splits)

lemma map_result_nth:
  "map_result f xs = Inr ys \<Longrightarrow> k < length xs \<Longrightarrow> f (xs ! k) = Inr (ys ! k)"
proof (induction xs arbitrary: ys k)
  case Nil
  then show ?case by simp
next
  case (Cons x xs)
  then show ?case by (cases k) (auto split: sum.splits)
qed

lemma entry_id_spec: "entry_id it = spec_item_id it"
  by (cases it)
     (simp_all add: entry_id_def spec_item_id_def first_truthy_def py_or_def dict_get_def
        value_under_def)

lemma entry_score_spec: "entry_score it = spec_score it"
  by (cases it)
     (simp_all add: entry_score_def spec_score_def first_truthy_def py_or_def dict_get_def
        value_under_def)

lemma normalize_entry_spec:
  "normalize_entry strf it =
     (case py_float strf (spec_score it) of
        Inl err \<Rightarrow> Inl err
      | Inr x \<Rightarrow> Inr (spec_record strf it))"
  by (simp add: normalize_entry_def entry_id_spec entry_score_spec spec_record_def
      split: sum.splits)

lemma map_result_all:
  "list_all (convertible strf) data \<Longrightarrow>
     map_result (normalize_entry strf) data = Inr (map (spec_record strf) data)"
  by (induction data) (auto simp: normalize_entry_spec convertible_def split: sum.splits)

lemma map_result_not_all:
  "\<not> list_all (convertible strf) data \<Longrightarrow> \<exists>err. map_result (normalize_entry strf) data = Inl err"
  by (induction data) (auto simp: normalize_entry_spec convertible_def split: sum.splits)

text \<open>
  Claim C7, as the spec states it, fails: an entry with none of the identifier keys is
  not skipped; it yields a record whose identifier is \<open>None\<close>.
\<close>

theorem parse_gorse_items_counterexample:
  "parse_gorse_items Map.empty (Some (JArr [JObj [(''name'', JStr ''x'')]])) =
     Inr [\<lparr>g_item_id = JNull, g_cf_score = 0\<rparr>]"
  by (simp add: parse_gorse_items_def normalize_entry_def entry_id_def entry_score_def
      dict_get_def py_or_def int_too_large_for_float_def)

text \<open>
  Claim C7, amended. A response with no JSON body, or whose body is not a list, gives
  the empty list. For a list in which \<open>float\<close> accepts the raw score of every entry, the
  parser returns exactly the records of the entries, one per entry, in order, none
  skipped: the identifier of a dict entry is its first truthy value under \<open>Id\<close>,
  \<open>ItemId\<close>, \<open>item_id\<close>, \<open>id\<close> (the value under \<open>id\<close> when none is truthy, so \<open>None\<close> when
  the entry has none of these keys), the identifier of any other entry is the entry
  itself, and the score is \<open>float\<close> of the first truthy value under \<open>Score\<close>, \<open>score\<close>,
  0 when there is none. For a list with an entry whose raw score \<open>float\<close> rejects, the
  parser raises, and the adapter that called it answers with the empty list.
\<close>

theorem parse_gorse_items_normalizes:
  "parse_gorse_items strf None = Inr [] \<and>
   ((\<forall>data. v \<noteq> JArr data) \<longrightarrow> parse_gorse_items strf (Some v) = Inr []) \<and>
   (list_all (convertible strf) data \<longrightarrow>
      parse_gorse_items strf (Some (JArr data)) = Inr (map (spec_record strf) data)) \<and>
   (\<not> list_all (convertible strf) data \<longrightarrow>
      (\<exists>err. parse_gorse_items strf (Some (JArr data)) = Inl err)) \<and>
   (gorse_get e user_id n = GorseStatus 200 (Some (JArr data)) \<longrightarrow>
      get_gorse_recommendations e user_id n =
        (if list_all (convertible (str_to_float e)) data
         then map (spec_record (str_to_float e)) data else [])) \<and>
   (no_id_key kvs \<longrightarrow> spec_item_id (JObj kvs) = JNull) \<and>
   (no_score_key kvs \<longrightarrow> spec_score (JObj kvs) = JInt 0 \<and> convertible strf (JObj kvs))"
proof -
  have a: "parse_gorse_items strf None = Inr []"
    by (simp add: parse_gorse_items_def)
  have b: "parse_gorse_items strf (Some v) = Inr []" if "\<forall>data. v \<noteq> JArr data"
    using that by (cases v) (simp_all add: parse_gorse_items_def)
  have c: "parse_gorse_items strf' (Some (JArr data)) = Inr (map (spec_record strf') data)"
    if "list_all (convertible strf') data" for strf'
    using map_result_all[OF that] by (simp add: parse_gorse_items_def)
  have d: "\<exists>err. parse_gorse_items strf' (Some (JArr data)) = Inl err"
    if "\<not> list_all (convertible strf') data" for strf'
    using map_result_not_all[OF that] by (simp add: parse_gorse_items_def)
  have g: "get_gorse_recommendations e user_id n =
        (if list_all (convertible (str_to_float e)) data
         then map (spec_record (str_to_float e)) data else [])"
    if r: "gorse_get e user_id n = GorseStatus 200 (Some (JArr data))"
  proof (cases "list_all (convertible (str_to_float e)) data")
    case True
    with c[OF True] r show ?thesis by (simp add: get_gorse_recommendations_def)
  next
    case False
    from d[OF False] obtain err where
      "parse_gorse_items (str_to_float e) (Some (JArr data)) = Inl err" ..
    with False r show ?thesis by (simp add: get_gorse_recommendations_def)
  qed
  have i: "spec_item_id (JObj kvs) = JNull" if "no_id_key kvs"
    using that by (simp add: spec_item_id_def no_id_key_def first_truthy_def value_under_def)
  have k: "spec_score (JObj kvs) = JInt 0 \<and> convertible strf (JObj kvs)" if "no_score_key kvs"
    using that
    by (simp add: spec_score_def no_score_key_def first_truthy_def value_under_def convertible_def
        int_too_large_for_float_def)
  from a b c[of strf] d[of strf] g i k show ?thesis by blast
qed

theorem parse_gorse_items_normalizes_witness:
  "list_all (convertible Map.empty)
     [JObj [(''ItemId'', JStr ''i1''), (''Score'', JFloat 0.5)], JObj [], JStr ''i3''] \<and>
   parse_gorse_items Map.empty
      (Some (JArr [JObj [(''ItemId'', JStr ''i1''), (''Score'', JFloat 0.5)], JObj [], JStr ''i3''])) =
      Inr [\<lparr>g_item_id = JStr ''i1'', g_cf_score = 0.5\<rparr>, \<lparr>g_item_id = JNull, g_cf_score = 0\<rparr>,
           \<lparr>g_item_id = JStr ''i3'', g_cf_score = 0\<rparr>] \<and>
   \<not> list_all (convertible Map.empty) [JObj [(''Score'', JStr ''abc'')]] \<and>
   (\<exists>err. parse_gorse_items Map.empty (Some (JArr [JObj [(''Score'', JStr ''abc'')]])) = Inl err)"
  (is "?A \<and> ?B \<and> ?C \<and> ?D")
proof -
  let ?data = "[JObj [(''ItemId'', JStr ''i1''), (''Score'', JFloat 0.5)], JObj [], JStr ''i3'']"
  let ?bad = "[JObj [(''Score'', JStr ''abc'')]]"
  have a: "?A"
    by (simp add: convertible_def spec_score_def first_truthy_def value_under_def
        int_too_large_for_float_def)
  have m: "map (spec_record Map.empty) ?data =
      [\<lparr>g_item_id = JStr ''i1'', g_cf_score = 0.5\<rparr>, \<lparr>g_item_id = JNull, g_cf_score = 0\<rparr>,
       \<lparr>g_item_id = JStr ''i3'', g_cf_score = 0\<rparr>]"
    by (simp add: spec_record_def spec_item_id_def spec_score_def first_truthy_def value_under_def
        int_too_large_for_float_def)
  have c: "?C"
    by (simp add: convertible_def spec_score_def first_truthy_def value_under_def)
  from parse_gorse_items_normalizes[where strf = Map.empty and data = ?data] a
  have "parse_gorse_items Map.empty (Some (JArr ?data)) = Inr (map (spec_record Map.empty) ?data)"
    by blast
  then have b: "?B" by (simp only: m)
  from parse_gorse_items_normalizes[where strf = Map.empty and data = ?bad] c
  have d: "?D" by blast
  from a b c d show ?thesis by blast
qed

section \<open>Properties of the cache and of the request handler\<close>

lemma regenerate_miss:
  "regenerate e st user_id req = (Http200 resp, st') \<Longrightarrow> cache resp = ''miss''"
  by (auto simp: regenerate_def Let_def split: sum.splits prod.splits)

lemma regenerate_written:
  "snd (regenerate e st user_id req) \<noteq> st \<Longrightarrow>
     \<exists>resp. fst (regenerate e st user_id req) = Http200 resp \<and> cache resp = ''miss''"
  by (auto simp: regenerate_def Let_def split: sum.splits prod.splits)

lemma serve_cached_hit:
  "serve_cached now st user_id req = Some resp \<Longrightarrow> cache resp = ''hit''"
  by (auto simp: serve_cached_def Let_def split: option.splits if_splits)

text \<open>
  Claim C10. A response served as a cache hit comes from the read path alone and leaves
  the store as it was: the entries, their values and the instants at which they expire
  are unchanged. Whenever a request changes the store, its response is a cache miss
  produced by the regeneration.
\<close>

theorem cache_hit_writes_nothing:
  "(\<forall>resp st'. recommend e st user_id req = (Http200 resp, st') \<and> cache resp = ''hit'' \<longrightarrow>
       st' = st \<and> serve_cached (utcnow e) st user_id req = Some resp) \<and>
   (snd (recommend e st user_id req) \<noteq> st \<longrightarrow>
       serve_cached (utcnow e) st user_id req = None \<and>
       (\<exists>resp. fst (recommend e st user_id req) = Http200 resp \<and> cache resp = ''miss''))"
proof (cases "serve_cached (utcnow e) st user_id req")
  case None
  then have r: "recommend e st user_id req = regenerate e st user_id req"
    by (simp add: recommend_def)
  then show ?thesis using None regenerate_written[of e st user_id req]
    by (auto dest: regenerate_miss)
next
  case (Some resp)
  then show ?thesis by (auto simp: recommend_def)
qed

theorem cache_hit_writes_nothing_witness:
  "(let e = \<lparr>feeds_col = [], likes_col = [], comments_col = [], saved_feeds_col = [],
              reposts_col = [], follows_col = [], watch_col = [], interests_col = [],
              explore_feeds_col = [], related_items_col = [],
              sort_createdAt_desc = (\<lambda>xs. xs), sort_popularityScore_desc = (\<lambda>xs. xs),
              sort_score_desc = (\<lambda>xs. xs), gorse_get = (\<lambda>u n. GorseError),
              str_to_float = Map.empty, fromisoformat = Map.empty, utcnow = 100,
              randbelow = (\<lambda>n. 0), md5_hex16 = (\<lambda>u t. ''0123456789abcdef'')\<rparr>;
        st = \<lparr>REDIS_AVAILABLE = True, redis_up = True,
              redis_data = [(''rec_session:u1:s1'', map (\<lambda>n. \<lparr>out_item_id = ''i'', out_score = real n, out_category = ''post'',
                 friend_liked_by = [], out_popularity = 0,
                 recommendation_type = ''personalized'', out_metadata = None\<rparr>) [0..<25], 600)]\<rparr>;
        req = \<lparr>arg_page = 2, arg_limit = 10, arg_session_id = Some ''s1'', arg_refresh = False,
               arg_personalized_ratio = 0.7\<rparr>
    in snd (recommend e st ''u1'' req) = st \<and>
       (\<exists>resp. fst (recommend e st ''u1'' req) = Http200 resp \<and> cache resp = ''hit''))"
proof -
  let ?e = "\<lparr>feeds_col = [], likes_col = [], comments_col = [], saved_feeds_col = [],
              reposts_col = [], follows_col = [], watch_col = [], interests_col = [],
              explore_feeds_col = [], related_items_col = [],
              sort_createdAt_desc = (\<lambda>xs. xs), sort_popularityScore_desc = (\<lambda>xs. xs),
              sort_score_desc = (\<lambda>xs. xs), gorse_get = (\<lambda>u n. GorseError),
              str_to_float = Map.empty, fromisoformat = Map.empty, utcnow = 100,
              randbelow = (\<lambda>n. 0), md5_hex16 = (\<lambda>u t. ''0123456789abcdef'')\<rparr>"
  let ?st = "\<lparr>REDIS_AVAILABLE = True, redis_up = True,
              redis_data = [(''rec_session:u1:s1'', map (\<lambda>n. \<lparr>out_item_id = ''i'', out_score = real n, out_category = ''post'',
                 friend_liked_by = [], out_popularity = 0,
                 recommendation_type = ''personalized'', out_metadata = None\<rparr>) [0..<25], 600)]\<rparr>"
  let ?req = "\<lparr>arg_page = 2, arg_limit = 10, arg_session_id = Some ''s1'', arg_refresh = False,
               arg_personalized_ratio = 0.7\<rparr>"
  have "\<exists>resp. serve_cached (utcnow ?e) ?st ''u1'' ?req = Some resp"
    by (simp add: serve_cached_def get_cached_recommendations_def redis_get_def get_cache_key_def
        truthy_id_def str_id_def clamp_page_def clamp_limit_def MIN_PAGE_SIZE_def MAX_PAGE_SIZE_def
        PRELOAD_BUFFER_def Let_def)
  then obtain resp where s: "serve_cached (utcnow ?e) ?st ''u1'' ?req = Some resp" ..
  then have r: "recommend ?e ?st ''u1'' ?req = (Http200 resp, ?st)"
    by (simp add: recommend_def)
  have "cache resp = ''hit''" using s by (rule serve_cached_hit)
  with r cache_hit_writes_nothing[of ?e ?st "''u1''" ?req]
  have "snd (recommend ?e ?st ''u1'' ?req) = ?st \<and>
        (\<exists>resp. fst (recommend ?e ?st ''u1'' ?req) = Http200 resp \<and> cache resp = ''hit'')"
    by (metis fst_conv snd_conv)
  then show ?thesis unfolding Let_def .
qed

text \<open>
  Claim C5, as the spec states it, fails in its example: with a cached list of length 25,
  page 3 and limit 10 the slice would end at 30, which reaches the length 25 of a list
  shorter than the preload buffer, so the read path returns nothing and the handler
  regenerates instead of serving items 20 to 24 as a cache hit.
\<close>

theorem cached_page_three_counterexample:
  "serve_cached 0
     \<lparr>REDIS_AVAILABLE = True, redis_up = True,
      redis_data = [(''rec_session:u1:s1'', map (\<lambda>n. \<lparr>out_item_id = ''i'', out_score = real n, out_category = ''post'',
                 friend_liked_by = [], out_popularity = 0,
                 recommendation_type = ''personalized'', out_metadata = None\<rparr>) [0..<25], 600)]\<rparr>
     ''u1''
     \<lparr>arg_page = 3, arg_limit = 10, arg_session_id = Some ''s1'', arg_refresh = False,
      arg_personalized_ratio = 0.7\<rparr>
   = None"
  by (simp add: serve_cached_def get_cached_recommendations_def redis_get_def get_cache_key_def
      truthy_id_def str_id_def clamp_page_def clamp_limit_def MIN_PAGE_SIZE_def MAX_PAGE_SIZE_def
      PRELOAD_BUFFER_def Let_def)

lemma serve_cached_found:
  assumes "truthy_id (arg_session_id req)" "\<not> arg_refresh req"
    and "get_cached_recommendations now st user_id (str_id (arg_session_id req)) = Some cached"
  shows "serve_cached now st user_id req =
     (let page = clamp_page (arg_page req);
          limit = clamp_limit (arg_limit req);
          start = (page - 1) * limit;
          end = start + limit
      in if end \<ge> int (length cached) \<and> length cached < PRELOAD_BUFFER then None
         else Some \<lparr>resp_user = user_id, resp_page = page, resp_limit = limit,
                    resp_session_id = arg_session_id req,
                    resp_total = length cached,
                    has_more = (end < int (length cached)),
                    results_count = length (py_slice start end cached),
                    recommendations = py_slice start end cached,
                    cache = ''hit'', resp_stats = None\<rparr>)"
proof -
  have "0 \<le> (clamp_page (arg_page req) - 1) * clamp_limit (arg_limit req) + clamp_limit (arg_limit req)"
    by (auto simp: clamp_page_def clamp_limit_def MIN_PAGE_SIZE_def MAX_PAGE_SIZE_def Let_def)
  then show ?thesis using assms
    by (auto simp: serve_cached_def Let_def PRELOAD_BUFFER_def)
qed

text \<open>
  Claim C5, amended. For a read with a session id and no refresh that finds a cached list
  of length T, with start = (page - 1) * limit and end = start + limit (page and limit
  as clamped): if end >= T and T < 100 the request is answered by the full regeneration;
  otherwise the response is the slice from start to end of the cached list, as a cache
  hit with has_more = (end < T), and the store is unchanged. In particular a cached list
  of length 25 with page 2 and limit 10 returns items 10 to 19 with has_more true, page 3
  of the same list forces regeneration, and so does page 1 of a cached list of length 8.
\<close>

theorem cache_read_path:
  assumes "truthy_id (arg_session_id req)" "\<not> arg_refresh req"
    and "get_cached_recommendations (utcnow e) st user_id (str_id (arg_session_id req)) = Some cached"
  shows "(let limit = clamp_limit (arg_limit req);
              start = (clamp_page (arg_page req) - 1) * limit;
              end = start + limit;
              T = length cached
          in if end \<ge> int T \<and> T < PRELOAD_BUFFER
             then recommend e st user_id req = regenerate e st user_id req
             else \<exists>resp. recommend e st user_id req = (Http200 resp, st) \<and>
                    cache resp = ''hit'' \<and>
                    recommendations resp = drop (nat start) (take (nat end) cached) \<and>
                    has_more resp = (end < int T) \<and>
                    resp_total resp = T)"
  using serve_cached_found[OF assms]
  by (simp add: recommend_def Let_def py_slice_def)

theorem cache_read_path_witness:
  "(let e = \<lparr>feeds_col = [], likes_col = [], comments_col = [], saved_feeds_col = [],
              reposts_col = [], follows_col = [], watch_col = [], interests_col = [],
              explore_feeds_col = [], related_items_col = [],
              sort_createdAt_desc = (\<lambda>xs. xs), sort_popularityScore_desc = (\<lambda>xs. xs),
              sort_score_desc = (\<lambda>xs. xs), gorse_get = (\<lambda>u n. GorseError),
              str_to_float = Map.empty, fromisoformat = Map.empty, utcnow = 100,
              randbelow = (\<lambda>n. 0), md5_hex16 = (\<lambda>u t. ''0123456789abcdef'')\<rparr>;
        st25 = \<lparr>REDIS_AVAILABLE = True, redis_up = True,
              redis_data = [(''rec_session:u1:s1'', map (\<lambda>n. \<lparr>out_item_id = ''i'', out_score = real n, out_category = ''post'',
                 friend_liked_by = [], out_popularity = 0,
                 recommendation_type = ''personalized'', out_metadata = None\<rparr>) [0..<25], 600)]\<rparr>;
        st8 = \<lparr>REDIS_AVAILABLE = True, redis_up = True,
              redis_data = [(''rec_session:u1:s1'', map (\<lambda>n. \<lparr>out_item_id = ''i'', out_score = real n, out_category = ''post'',
                 friend_liked_by = [], out_popularity = 0,
                 recommendation_type = ''personalized'', out_metadata = None\<rparr>) [0..<8], 600)]\<rparr>;
        req = (\<lambda>p. \<lparr>arg_page = p, arg_limit = 10, arg_session_id = Some ''s1'', arg_refresh = False,
               arg_personalized_ratio = 0.7\<rparr>)
    in (\<exists>resp. recommend e st25 ''u1'' (req 2) = (Http200 resp, st25) \<and>
                cache resp = ''hit'' \<and>
                recommendations resp = map (\<lambda>n. \<lparr>out_item_id = ''i'', out_score = real n, out_category = ''post'',
                 friend_liked_by = [], out_popularity = 0,
                 recommendation_type = ''personalized'', out_metadata = None\<rparr>) [10..<20] \<and>
                has_more resp \<and> resp_total resp = 25) \<and>
       recommend e st25 ''u1'' (req 3) = regenerate e st25 ''u1'' (req 3) \<and>
       recommend e st8 ''u1'' (req 1) = regenerate e st8 ''u1'' (req 1))"
proof -
  let ?e = "\<lparr>feeds_col = [], likes_col = [], comments_col = [], saved_feeds_col = [],
              reposts_col = [], follows_col = [], watch_col = [], interests_col = [],
              explore_feeds_col = [], related_items_col = [],
              sort_createdAt_desc = (\<lambda>xs. xs), sort_popularityScore_desc = (\<lambda>xs. xs),
              sort_score_desc = (\<lambda>xs. xs), gorse_get = (\<lambda>u n. GorseError),
              str_to_float = Map.empty, fromisoformat = Map.empty, utcnow = 100,
              randbelow = (\<lambda>n. 0), md5_hex16 = (\<lambda>u t. ''0123456789abcdef'')\<rparr>"
  let ?mk = "(\<lambda>n. \<lparr>out_item_id = ''i'', out_score = real n, out_category = ''post'',
                 friend_liked_by = [], out_popularity = 0,
                 recommendation_type = ''personalized'', out_metadata = None\<rparr>)"
  let ?st = "\<lambda>n. \<lparr>REDIS_AVAILABLE = True, redis_up = True,
              redis_data = [(''rec_session:u1:s1'', map ?mk [0..<n], 600)]\<rparr>"
  let ?req = "\<lambda>p. \<lparr>arg_page = p, arg_limit = 10, arg_session_id = Some ''s1'', arg_refresh = False,
               arg_personalized_ratio = 0.7\<rparr>"
  have t: "truthy_id (arg_session_id (?req p))" and n: "\<not> arg_refresh (?req p)" for p
    by (simp_all add: truthy_id_def)
  have g: "get_cached_recommendations (utcnow ?e) (?st k) ''u1'' (str_id (arg_session_id (?req p)))
             = Some (map ?mk [0..<k])" for k p
    by (simp add: get_cached_recommendations_def redis_get_def get_cache_key_def truthy_id_def
        str_id_def)
  have a: "\<exists>resp. recommend ?e (?st 25) ''u1'' (?req 2) = (Http200 resp, ?st 25) \<and>
                cache resp = ''hit'' \<and> recommendations resp = map ?mk [10..<20] \<and> has_more resp \<and>
                resp_total resp = 25"
    using cache_read_path[OF t[of 2] n[of 2] g[of 25 2]]
    by (simp add: Let_def clamp_page_def clamp_limit_def MIN_PAGE_SIZE_def MAX_PAGE_SIZE_def
        PRELOAD_BUFFER_def take_map drop_map)
  have b: "recommend ?e (?st 25) ''u1'' (?req 3) = regenerate ?e (?st 25) ''u1'' (?req 3)"
    using cache_read_path[OF t[of 3] n[of 3] g[of 25 3]]
    by (simp add: Let_def clamp_page_def clamp_limit_def MIN_PAGE_SIZE_def MAX_PAGE_SIZE_def
        PRELOAD_BUFFER_def)
  have c: "recommend ?e (?st 8) ''u1'' (?req 1) = regenerate ?e (?st 8) ''u1'' (?req 1)"
    using cache_read_path[OF t[of 1] n[of 1] g[of 8 1]]
    by (simp add: Let_def clamp_page_def clamp_limit_def MIN_PAGE_SIZE_def MAX_PAGE_SIZE_def
        PRELOAD_BUFFER_def)
  from a b c show ?thesis unfolding Let_def by blast
qed

text \<open>
  Claim C8, as the spec states it, fails: when the store is flagged available but does
  not answer, the write is caught by the \<open>except\<close> branch and returns no token at all.
  (And where a token is returned, it is the caller's own session id whenever one was
  supplied.)
\<close>

theorem cache_write_unreachable_counterexample:
  "cache_recommendations (\<lambda>u t. ''0123456789abcdef'') 100
     \<lparr>REDIS_AVAILABLE = True, redis_up = False, redis_data = []\<rparr> ''u1'' [] None
   = (None, \<lparr>REDIS_AVAILABLE = True, redis_up = False, redis_data = []\<rparr>)"
  by (simp add: cache_recommendations_def)

lemma serve_cached_unreachable:
  "\<not> REDIS_AVAILABLE st \<or> \<not> redis_up st \<Longrightarrow> serve_cached now st user_id req = None"
  by (auto simp: serve_cached_def get_cached_recommendations_def Let_def)

lemma cache_recommendations_unreachable:
  "\<not> REDIS_AVAILABLE st \<or> \<not> redis_up st \<Longrightarrow>
     snd (cache_recommendations md5 now st user_id recs session_id) = st"
  by (auto simp: cache_recommendations_def)

lemma regenerate_unreachable:
  assumes "\<not> REDIS_AVAILABLE st \<or> \<not> redis_up st"
  shows "snd (regenerate e st user_id req) = st"
  using cache_recommendations_unreachable[OF assms]
  by (auto simp: regenerate_def Let_def split: sum.splits prod.splits)

lemma regenerate_result:
  "fst (regenerate e st user_id req) =
     (case build_full_list e user_id (clamp_ratio (arg_personalized_ratio req)) of
        Inl err \<Rightarrow> Http500 err
      | Inr res \<Rightarrow> fst (regenerate e st user_id req))"
  by (auto simp: regenerate_def Let_def split: sum.splits prod.splits)

lemma regenerate_page:
  assumes "build_full_list e user_id (clamp_ratio (arg_personalized_ratio req)) = Inr (full_list, recs)"
  shows "\<exists>resp. fst (regenerate e st user_id req) = Http200 resp \<and> cache resp = ''miss'' \<and>
           resp_total resp = length full_list \<and>
           recommendations resp =
             py_slice ((clamp_page (arg_page req) - 1) * clamp_limit (arg_limit req))
                      ((clamp_page (arg_page req) - 1) * clamp_limit (arg_limit req)
                         + clamp_limit (arg_limit req)) full_list"
  using assms by (simp add: regenerate_def Let_def)

lemma regenerate_error:
  "fst (regenerate e st user_id req) = Http500 err \<longleftrightarrow>
     build_full_list e user_id (clamp_ratio (arg_personalized_ratio req)) = Inl err"
  by (auto simp: regenerate_def Let_def split: sum.splits prod.splits)

text \<open>
  Claim C8, amended. Whenever the cache store is unreachable (flagged unavailable, or not
  answering), every cache read reports the entry absent and every cache write leaves the
  store as it is. A write to a store flagged unavailable returns the caller's session id
  when one was supplied and a locally generated token otherwise; a write to a store that
  does not answer returns no token. Every request is then answered by the regeneration:
  it reports \<open>miss\<close> with a page of the list that the pipeline built, it fails only when
  the pipeline itself fails, and an identical second request runs the pipeline again
  with the same outcome.
\<close>

theorem degraded_cache:
  assumes "\<not> REDIS_AVAILABLE st \<or> \<not> redis_up st"
  shows "get_cached_recommendations now st user_id sid = None \<and>
         snd (cache_recommendations md5 now st user_id recs session_id) = st \<and>
         fst (cache_recommendations md5 now st user_id recs session_id) =
           (if \<not> REDIS_AVAILABLE st
            then Some (if truthy_id session_id then str_id session_id else md5 user_id now)
            else None) \<and>
         recommend e st user_id req = regenerate e st user_id req \<and>
         snd (recommend e st user_id req) = st \<and>
         recommend e (snd (recommend e st user_id req)) user_id req = recommend e st user_id req \<and>
         (\<forall>err. fst (recommend e st user_id req) = Http500 err \<longleftrightarrow>
                build_full_list e user_id (clamp_ratio (arg_personalized_ratio req)) = Inl err) \<and>
         (\<forall>full_list recs.
            build_full_list e user_id (clamp_ratio (arg_personalized_ratio req)) = Inr (full_list, recs)
            \<longrightarrow> (\<exists>resp. fst (recommend e st user_id req) = Http200 resp \<and> cache resp = ''miss'' \<and>
                   resp_total resp = length full_list \<and>
                   recommendations resp =
                     py_slice ((clamp_page (arg_page req) - 1) * clamp_limit (arg_limit req))
                              ((clamp_page (arg_page req) - 1) * clamp_limit (arg_limit req)
                                 + clamp_limit (arg_limit req)) full_list))"
proof -
  have r: "recommend e st user_id req = regenerate e st user_id req"
    using serve_cached_unreachable[OF assms] by (simp add: recommend_def)
  have s: "snd (recommend e st user_id req) = st"
    using r regenerate_unreachable[OF assms] by simp
  have g: "get_cached_recommendations now st user_id sid = None"
    using assms by (auto simp: get_cached_recommendations_def)
  have w: "fst (cache_recommendations md5 now st user_id recs session_id) =
           (if \<not> REDIS_AVAILABLE st
            then Some (if truthy_id session_id then str_id session_id else md5 user_id now)
            else None)"
    using assms by (auto simp: cache_recommendations_def new_session_def)
  show ?thesis
    using g w r s cache_recommendations_unreachable[OF assms] regenerate_error regenerate_page
    by (simp only:) blast
qed

theorem degraded_cache_witness:
  "(let e = \<lparr>feeds_col = [], likes_col = [], comments_col = [], saved_feeds_col = [],
              reposts_col = [], follows_col = [], watch_col = [], interests_col = [],
              explore_feeds_col = [], related_items_col = [],
              sort_createdAt_desc = (\<lambda>xs. xs), sort_popularityScore_desc = (\<lambda>xs. xs),
              sort_score_desc = (\<lambda>xs. xs), gorse_get = (\<lambda>u n. GorseError),
              str_to_float = Map.empty, fromisoformat = Map.empty, utcnow = 100,
              randbelow = (\<lambda>n. 0), md5_hex16 = (\<lambda>u t. ''0123456789abcdef'')\<rparr>;
        st = \<lparr>REDIS_AVAILABLE = False, redis_up = False, redis_data = []\<rparr>;
        req = \<lparr>arg_page = 1, arg_limit = 10, arg_session_id = None, arg_refresh = False,
               arg_personalized_ratio = 0.7\<rparr>
    in (\<not> REDIS_AVAILABLE st \<or> \<not> redis_up st) \<and>
       snd (recommend e st ''u1'' req) = st \<and>
       recommend e (snd (recommend e st ''u1'' req)) ''u1'' req = recommend e st ''u1'' req)"
proof -
  let ?e = "\<lparr>feeds_col = [], likes_col = [], comments_col = [], saved_feeds_col = [],
              reposts_col = [], follows_col = [], watch_col = [], interests_col = [],
              explore_feeds_col = [], related_items_col = [],
              sort_createdAt_desc = (\<lambda>xs. xs), sort_popularityScore_desc = (\<lambda>xs. xs),
              sort_score_desc = (\<lambda>xs. xs), gorse_get = (\<lambda>u n. GorseError),
              str_to_float = Map.empty, fromisoformat = Map.empty, utcnow = 100,
              randbelow = (\<lambda>n. 0), md5_hex16 = (\<lambda>u t. ''0123456789abcdef'')\<rparr>"
  let ?st = "\<lparr>REDIS_AVAILABLE = False, redis_up = False, redis_data = []\<rparr>"
  let ?req = "\<lparr>arg_page = 1, arg_limit = 10, arg_session_id = None, arg_refresh = False,
               arg_personalized_ratio = 0.7\<rparr>"
  have h: "\<not> REDIS_AVAILABLE ?st \<or> \<not> redis_up ?st" by simp
  from degraded_cache[OF h, where e = ?e and user_id = "''u1''" and req = ?req]
  have "snd (recommend ?e ?st ''u1'' ?req) = ?st \<and>
        recommend ?e (snd (recommend ?e ?st ''u1'' ?req)) ''u1'' ?req = recommend ?e ?st ''u1'' ?req"
    by blast
  with h show ?thesis unfolding Let_def by blast
qed

text \<open>
  Claim C1 at a concrete state of the store. User \<open>a...a\<close> follows author \<open>b...b\<close>, whose
  active post \<open>c...c\<close> the user has commented on. The post is in the exclusion set, and
  the response recommends it: the followed-users adapter is not filtered against the
  exclusion set and the final pass only drops liked items.
\<close>

theorem excluded_item_is_recommended:
  "(let u = ''aaaaaaaaaaaaaaaaaaaaaaaa'';
        e = \<lparr>feeds_col =
                [\<lparr>feed_id = ''cccccccccccccccccccccccc'', feed_userId = ''bbbbbbbbbbbbbbbbbbbbbbbb'',
                  feed_status = ''active'', hashtags = [], createdAt = Some (TsDatetime 0),
                  decayedPopularityScore = None, feed_text = None, feed_title = None,
                  likeCount = None, commentCount = None\<rparr>],
              likes_col = [],
              comments_col =
                [\<lparr>comment_userId = ''aaaaaaaaaaaaaaaaaaaaaaaa'',
                  comment_feedId = Some ''cccccccccccccccccccccccc''\<rparr>],
              saved_feeds_col = [], reposts_col = [],
              follows_col =
                [\<lparr>followerId = ''aaaaaaaaaaaaaaaaaaaaaaaa'', followingId = ''bbbbbbbbbbbbbbbbbbbbbbbb'',
                  follow_status = ''active''\<rparr>],
              watch_col = [], interests_col = [], explore_feeds_col = [], related_items_col = [],
              sort_createdAt_desc = (\<lambda>xs. xs), sort_popularityScore_desc = (\<lambda>xs. xs),
              sort_score_desc = (\<lambda>xs. xs), gorse_get = (\<lambda>u n. GorseError),
              str_to_float = Map.empty, fromisoformat = Map.empty, utcnow = 100,
              randbelow = (\<lambda>n. 0), md5_hex16 = (\<lambda>u t. ''0123456789abcdef'')\<rparr>;
        st = \<lparr>REDIS_AVAILABLE = True, redis_up = True, redis_data = []\<rparr>;
        req = \<lparr>arg_page = 1, arg_limit = 10, arg_session_id = None, arg_refresh = False,
               arg_personalized_ratio = 0.7\<rparr>
    in ''cccccccccccccccccccccccc'' \<in> get_user_seen_items e u \<union> get_user_created_items e u \<and>
       (case fst (recommend e st u req) of
          Http200 resp \<Rightarrow> map out_item_id (recommendations resp)
        | Http500 err \<Rightarrow> []) = [''cccccccccccccccccccccccc''])"
  by code_simp

section \<open>Uniqueness of the recommended items\<close>

lemma distinct_fold_merge_step:
  "distinct (map item_id ms) \<Longrightarrow> distinct (map item_id (foldl merge_step ms cs))"
  by (induction cs arbitrary: ms) (simp_all add: distinct_merge_step)

lemma distinct_merge_candidates: "distinct (map item_id (merge_candidates ls))"
  by (simp add: merge_candidates_concat distinct_fold_merge_step)

lemma map_result_map:
  assumes "map_result f xs = Inr ys" and "\<And>x y. f x = Inr y \<Longrightarrow> g y = h x"
  shows "map g ys = map h xs"
  using assms(1)
proof (induction xs arbitrary: ys)
  case Nil
  then show ?case by simp
next
  case (Cons x xs)
  then show ?case by (auto split: sum.splits dest: assms(2))
qed

lemma score_candidate_id:
  assumes "score_candidate e user_id c = Inr r"
  shows "rec_item_id r = item_id c"
proof (cases "compute_recency_score (fromisoformat e) (utcnow e) (utcnow e) (lookup_item_doc e c)")
  case (Inl err)
  with assms show ?thesis by (simp only: score_candidate_def Let_def sum.case sum.distinct)
next
  case (Inr recency)
  with assms have "\<exists>sc cat. r = \<lparr>rec_item_id = item_id c, score = sc, rec_category = cat,
      popularity = item_popularity (lookup_item_doc e c),
      rec_feed_data = lookup_item_doc e c, is_popular = None\<rparr>"
    unfolding score_candidate_def Let_def by (simp only: sum.case sum.inject) blast
  then show ?thesis by (elim exE) (simp only: scored.select_convs)
qed

lemma compute_hybrid_ids:
  assumes "compute_hybrid e user_id cands = Inr out"
  shows "mset (map rec_item_id out) = mset (map item_id cands)"
proof -
  from assms obtain scored where m: "map_result (score_candidate e user_id) cands = Inr scored"
    and o: "out = sort_key (\<lambda>x. - score x) scored"
    by (auto simp: compute_hybrid_def split: sum.splits)
  from m have eq: "map rec_item_id scored = map item_id cands"
    by (rule map_result_map) (rule score_candidate_id)
  have "mset (map rec_item_id out) = mset (map rec_item_id scored)"
    by (simp add: o)
  then show ?thesis by (simp only: eq)
qed

lemma categorize_ids: "map rec_item_id (categorize recs) = map rec_item_id recs"
  by (simp add: categorize_def)

lemma shuffle_loop_mset: "k < length x \<Longrightarrow> mset (shuffle_loop rnd k x) = mset x"
proof (induction k arbitrary: x)
  case 0
  then show ?case by simp
next
  case (Suc k)
  let ?j = "rnd (Suc k + 1) mod (Suc k + 1)"
  have j: "?j < length x" using Suc.prems by (simp add: less_le_trans[OF mod_less_divisor])
  have "mset (x[Suc k := x ! ?j, ?j := x ! Suc k]) = mset x"
    using j Suc.prems by (rule mset_swap)
  moreover have "mset (shuffle_loop rnd k (x[Suc k := x ! ?j, ?j := x ! Suc k]))
      = mset (x[Suc k := x ! ?j, ?j := x ! Suc k])"
    using Suc.prems by (intro Suc.IH) simp
  ultimately show ?case by (simp add: Let_def)
qed

lemma shuffle_mset: "mset (shuffle rnd x) = mset x"
  by (cases "x = []") (simp_all add: shuffle_def shuffle_loop_mset)

lemma mset_take_subset: "mset (take n xs) \<subseteq># mset xs"
proof -
  have "mset xs = mset (take n xs) + mset (drop n xs)"
    by (metis append_take_drop_id mset_append)
  then show ?thesis by simp
qed

lemma mset_py_prefix_subset: "mset (py_prefix n xs) \<subseteq># mset xs"
  by (simp add: py_prefix_def mset_take_subset)

lemma mset_list_subset_filter:
  assumes "mset ys \<subseteq># mset xs"
  shows "mset ys \<subseteq># {#x \<in># mset xs. x \<in> set ys#}"
proof (rule mset_subset_eqI)
  fix a
  show "count (mset ys) a \<le> count {#x \<in># mset xs. x \<in> set ys#} a"
  proof (cases "a \<in> set ys")
    case True
    then show ?thesis using mset_subset_eq_count[OF assms, of a] by simp
  next
    case False
    then show ?thesis by (simp add: count_eq_zero_iff)
  qed
qed

lemma mix_with_count_subset: "mset (mix_with_count rnd np S) \<subseteq># mset S"
proof -
  define P where "P = filter (\<lambda>r. is_popular r \<noteq> Some True) S"
  define Q where "Q = filter (\<lambda>r. is_popular r = Some True) S"
  define total where "total = min (length S) PRELOAD_BUFFER"
  define mixed where "mixed = shuffle rnd (py_prefix np P @ py_prefix (int total - np) Q)"
  define rest where "rest = py_prefix (int total - int (length mixed)) (filter (\<lambda>r. r \<notin> set mixed) S)"
  have r: "mix_with_count rnd np S = (if length mixed < total then mixed @ rest else mixed)"
    by (simp add: mix_with_count_def Let_def P_def Q_def total_def mixed_def rest_def)
  have pq: "mset P + mset Q = mset S"
    by (simp add: P_def Q_def)
  have "mset mixed = mset (py_prefix np P) + mset (py_prefix (int total - np) Q)"
    by (simp add: mixed_def shuffle_mset)
  also have "\<dots> \<subseteq># mset P + mset Q"
    by (intro subset_mset.add_mono mset_py_prefix_subset)
  finally have m: "mset mixed \<subseteq># mset S" by (simp only: pq)
  then have m1: "mset mixed \<subseteq># {#x \<in># mset S. x \<in> set mixed#}"
    by (rule mset_list_subset_filter)
  have "mset rest \<subseteq># mset (filter (\<lambda>r. r \<notin> set mixed) S)"
    unfolding rest_def by (rule mset_py_prefix_subset)
  then have m2: "mset rest \<subseteq># {#x \<in># mset S. x \<notin> set mixed#}" by simp
  have "mset mixed + mset rest \<subseteq># {#x \<in># mset S. x \<in> set mixed#} + {#x \<in># mset S. x \<notin> set mixed#}"
    using m1 m2 by (rule subset_mset.add_mono)
  also have "\<dots> = mset S" by (rule multiset_partition[symmetric])
  finally have "mset (mixed @ rest) \<subseteq># mset S" by simp
  with m show ?thesis unfolding r by (cases "length mixed < total") (simp_all only: if_True if_False)
qed

lemma mix_recommendations_count:
  "mix_recommendations rnd ratio S =
     mix_with_count rnd (py_int (real (min (length S) PRELOAD_BUFFER) * ratio)) S"
  by (simp only: mix_recommendations_def mix_with_count_def Let_def)

lemma distinct_map_mset_subset:
  assumes "mset xs \<subseteq># mset ys" and "distinct (map f ys)"
  shows "distinct (map f xs)"
proof -
  have s: "mset (map f xs) \<subseteq># mset (map f ys)"
    using assms(1) by (simp add: image_mset_subseteq_mono)
  have "count (mset (map f xs)) a \<le> 1" for a
  proof -
    have "count (mset (map f ys)) a \<le> 1"
      using assms(2) by (simp only: distinct_count_atmost_1) simp
    with mset_subset_eq_count[OF s, of a] show ?thesis by simp
  qed
  then show ?thesis
    by (metis count_greater_eq_one_iff distinct_count_atmost_1 count_mset_0_iff le_antisym
        set_mset_mset)
qed

lemma annotate_id: "annotate e user_id feeds_map r = Inr a \<Longrightarrow> out_item_id a = rec_item_id r"
  by (auto simp: annotate_def Let_def split: option.splits sum.splits)

lemma build_full_list_distinct:
  assumes "build_full_list e user_id ratio = Inr (full_list, recs)"
  shows "distinct (map out_item_id full_list)"
proof -
  define excluded where
    "excluded = get_user_seen_items e user_id \<union> get_user_created_items e user_id"
  from assms obtain feeds_map where
    g: "generate_recommendations_for_user e user_id excluded = Inr (recs, feeds_map)"
    and a: "map_result (annotate e user_id feeds_map)
              (filter (\<lambda>r. rec_item_id r \<notin> user_liked_items e user_id)
                 (mix_recommendations (randbelow e) ratio (categorize recs))) = Inr full_list"
    by (auto simp: build_full_list_def Let_def excluded_def split: sum.splits prod.splits)
  from g obtain cands where
    h: "compute_hybrid e user_id (merge_candidates [cands]) = Inr recs"
    by (auto simp: generate_recommendations_for_user_def split: sum.splits)
  have "mset (map rec_item_id recs) = mset (map item_id (merge_candidates [cands]))"
    using h by (rule compute_hybrid_ids)
  then have "distinct (map rec_item_id recs) = distinct (map item_id (merge_candidates [cands]))"
    by (rule mset_eq_imp_distinct_iff)
  then have d: "distinct (map rec_item_id (categorize recs))"
    by (simp only: categorize_ids distinct_merge_candidates)
  let ?mixed = "mix_recommendations (randbelow e) ratio (categorize recs)"
  let ?kept = "filter (\<lambda>r. rec_item_id r \<notin> user_liked_items e user_id) ?mixed"
  have "mset ?kept \<subseteq># mset ?mixed" by simp
  also have "\<dots> \<subseteq># mset (categorize recs)"
    by (simp only: mix_recommendations_count mix_with_count_subset)
  finally have "distinct (map rec_item_id ?kept)"
    using d by (rule distinct_map_mset_subset)
  moreover have "map out_item_id full_list = map rec_item_id ?kept"
    using a by (rule map_result_map) (rule annotate_id)
  ultimately show ?thesis by simp
qed

lemma py_slice_distinct: "distinct (map f xs) \<Longrightarrow> distinct (map f (py_slice a b xs))"
  by (simp add: py_slice_def drop_map[symmetric] take_map[symmetric])

text \<open>
  Claim C9. In the list that a regeneration builds and caches, each item identifier
  appears at most once, and so in the page of a cache-miss response. The merge returns
  each identifier once; the scoring keeps the identifiers; and for every number of
  personalized items asked for and every outcome of the shuffle the mixer, backfill
  included, returns a sub-multiset of the scored list, so it neither repeats nor invents
  an item; the final filter and the annotation keep what is left.
\<close>

theorem regenerated_list_has_no_duplicates:
  "distinct (map item_id (merge_candidates ls)) \<and>
   (compute_hybrid e user_id cands = Inr scored_list \<longrightarrow>
      mset (map rec_item_id scored_list) = mset (map item_id cands)) \<and>
   mset (mix_with_count rnd np S) \<subseteq># mset S \<and>
   mix_recommendations rnd ratio S =
     mix_with_count rnd (py_int (real (min (length S) PRELOAD_BUFFER) * ratio)) S \<and>
   (distinct (map rec_item_id S) \<longrightarrow> distinct (map rec_item_id (mix_with_count rnd np S))) \<and>
   (build_full_list e user_id ratio = Inr (full_list, recs) \<longrightarrow>
      distinct (map out_item_id full_list)) \<and>
   (recommend e st user_id req = (Http200 resp, st') \<and> cache resp = ''miss'' \<longrightarrow>
      distinct (map out_item_id (recommendations resp)))"
proof -
  have miss: "distinct (map out_item_id (recommendations resp))"
    if r: "recommend e st user_id req = (Http200 resp, st')" and c: "cache resp = ''miss''"
  proof -
    have "serve_cached (utcnow e) st user_id req = None"
    proof (cases "serve_cached (utcnow e) st user_id req")
      case None
      then show ?thesis .
    next
      case (Some hit)
      with r have "resp = hit" by (simp add: recommend_def)
      with serve_cached_hit[OF Some] c show ?thesis by simp
    qed
    with r have g: "regenerate e st user_id req = (Http200 resp, st')"
      by (simp add: recommend_def)
    then obtain full_list recs where
      b: "build_full_list e user_id (clamp_ratio (arg_personalized_ratio req)) = Inr (full_list, recs)"
      by (cases "build_full_list e user_id (clamp_ratio (arg_personalized_ratio req))")
         (auto simp: regenerate_def Let_def)
    from regenerate_page[OF b, of st] g obtain a z where
      "recommendations resp = py_slice a z full_list"
      by auto
    with build_full_list_distinct[OF b] show ?thesis by (simp add: py_slice_distinct)
  qed
  from distinct_merge_candidates compute_hybrid_ids mix_with_count_subset
    mix_recommendations_count distinct_map_mset_subset[OF mix_with_count_subset]
    build_full_list_distinct miss
  show ?thesis by blast
qed

theorem regenerated_list_has_no_duplicates_witness:
  "(let u = ''aaaaaaaaaaaaaaaaaaaaaaaa'';
        fd = \<lparr>feed_id = ''cccccccccccccccccccccccc'', feed_userId = ''bbbbbbbbbbbbbbbbbbbbbbbb'',
              feed_status = ''active'', hashtags = [''news''], createdAt = Some (TsDatetime 0),
              decayedPopularityScore = None, feed_text = None, feed_title = None,
              likeCount = None, commentCount = None\<rparr>;
        e = \<lparr>feeds_col = [fd], likes_col = [], comments_col = [], saved_feeds_col = [],
              reposts_col = [],
              follows_col =
                [\<lparr>followerId = ''aaaaaaaaaaaaaaaaaaaaaaaa'', followingId = ''bbbbbbbbbbbbbbbbbbbbbbbb'',
                  follow_status = ''active''\<rparr>],
              watch_col = [],
              interests_col =
                [\<lparr>interest_userId = ''aaaaaaaaaaaaaaaaaaaaaaaa'', interests = [''news'']\<rparr>],
              explore_feeds_col = [], related_items_col = [],
              sort_createdAt_desc = (\<lambda>xs. xs), sort_popularityScore_desc = (\<lambda>xs. xs),
              sort_score_desc = (\<lambda>xs. xs), gorse_get = (\<lambda>u n. GorseError),
              str_to_float = Map.empty, fromisoformat = Map.empty, utcnow = 100,
              randbelow = (\<lambda>n. 0), md5_hex16 = (\<lambda>u t. ''0123456789abcdef'')\<rparr>
    in map out_item_id (fst (projr (build_full_list e u 0.5))) = [''cccccccccccccccccccccccc''] \<and>
       length (candidate_followed_users e u 50 @ candidate_interest e u 30) = 2 \<and>
       distinct (map out_item_id (fst (projr (build_full_list e u 0.5)))))"
proof -
  let ?u = "''aaaaaaaaaaaaaaaaaaaaaaaa''"
  let ?fd = "\<lparr>feed_id = ''cccccccccccccccccccccccc'', feed_userId = ''bbbbbbbbbbbbbbbbbbbbbbbb'',
              feed_status = ''active'', hashtags = [''news''], createdAt = Some (TsDatetime 0),
              decayedPopularityScore = None, feed_text = None, feed_title = None,
              likeCount = None, commentCount = None\<rparr>"
  let ?e = "\<lparr>feeds_col = [?fd], likes_col = [], comments_col = [], saved_feeds_col = [],
              reposts_col = [],
              follows_col =
                [\<lparr>followerId = ''aaaaaaaaaaaaaaaaaaaaaaaa'', followingId = ''bbbbbbbbbbbbbbbbbbbbbbbb'',
                  follow_status = ''active''\<rparr>],
              watch_col = [],
              interests_col =
                [\<lparr>interest_userId = ''aaaaaaaaaaaaaaaaaaaaaaaa'', interests = [''news'']\<rparr>],
              explore_feeds_col = [], related_items_col = [],
              sort_createdAt_desc = (\<lambda>xs. xs), sort_popularityScore_desc = (\<lambda>xs. xs),
              sort_score_desc = (\<lambda>xs. xs), gorse_get = (\<lambda>u n. GorseError),
              str_to_float = Map.empty, fromisoformat = Map.empty, utcnow = 100,
              randbelow = (\<lambda>n. 0), md5_hex16 = (\<lambda>u t. ''0123456789abcdef'')\<rparr>"
  have a: "map out_item_id (fst (projr (build_full_list ?e ?u 0.5))) = [''cccccccccccccccccccccccc'']"
    by code_simp
  have b: "length (candidate_followed_users ?e ?u 50 @ candidate_interest ?e ?u 30) = 2"
    by code_simp
  have n: "\<not> isl (build_full_list ?e ?u 0.5)"
    by code_simp
  obtain full_list recs where r: "build_full_list ?e ?u 0.5 = Inr (full_list, recs)"
    using n by (cases "build_full_list ?e ?u 0.5") auto
  from regenerated_list_has_no_duplicates[where e = ?e and user_id = ?u and ratio = "0.5"
      and full_list = full_list and recs = recs] r
  have "distinct (map out_item_id full_list)" by blast
  then have c: "distinct (map out_item_id (fst (projr (build_full_list ?e ?u 0.5))))"
    by (simp only: r sum.sel fst_conv)
  from a b c show ?thesis unfolding Let_def by blast
qed

end
